theory Spec2Isabelle
  imports Complex_Main "HOL-Library.Word"
begin

section \<open>The virtual gamepad of gameplay (Gamepad.cpp)\<close>

text \<open>
  The source of the gamepad, Gamepad.cpp, is the second part of the file Theme.h of
  the sources. The gamepad keeps an array of buttons and an array of joysticks, each
  with a count field beside it, maps touch events to button and joystick state, and
  draws one sprite per enabled texture.

  Conventions of the embedding.
  \<^item> A C++ \<open>float\<close> is a value of the type \<open>float\<close> below: IEEE 754 single precision
    with signed zeros, infinities and NaN. Every operation rounds its exact result to
    the nearest single precision number, ties to even, on its own (no wider
    intermediate precision, no fused multiply and add).
  \<^item> An \<open>unsigned int\<close> used as a contact index is a \<open>32 word\<close>, so that
    \<open>(unsigned int)-1\<close> is the word \<open>- 1\<close>. Counts and array indices are only compared
    and incremented below a count, so they are \<open>nat\<close>.
  \<^item> The \<open>int\<close> coordinates of a touch are \<open>int\<close>; the program converts them to
    \<open>float\<close> in every comparison and subtraction, and the conversion rounds.
  \<^item> A pointer argument that may be \<open>NULL\<close> is an \<open>option\<close>.
  \<^item> A failed \<open>assert\<close> is the value \<open>Inl AssertionFailed\<close>.
  \<^item> A field that a constructor leaves uninitialised holds whatever the memory of the
    object held, which is an argument of the constructor.
  \<^item> The array \<open>_touches\<close> is written by the constructor only and read nowhere, so it
    is left out of the state.
\<close>

subsection \<open>Single precision floating point\<close>

text \<open>
  A float is a real number (\<open>Float 0\<close> is the positive zero), the negative zero, an
  infinity or NaN. The single precision numbers are the reals \<open>m * 2 powi e\<close> with
  \<open>\<bar>m\<bar> < 2 ^ 24\<close> and \<open>- 149 \<le> e \<le> 104\<close>; rounding returns no other real.
\<close>

datatype float = Float real | NegZero | PInf | NInf | NaN

fun valof :: "float \<Rightarrow> real" where
  "valof (Float v) = v"
| "valof NegZero = 0"
| "valof PInf = 0"
| "valof NInf = 0"
| "valof NaN = 0"

definition is_finite :: "float \<Rightarrow> bool" where
  "is_finite a \<longleftrightarrow> a \<noteq> PInf \<and> a \<noteq> NInf \<and> a \<noteq> NaN"

definition is_inf :: "float \<Rightarrow> bool" where
  "is_inf a \<longleftrightarrow> a = PInf \<or> a = NInf"

definition is_zero :: "float \<Rightarrow> bool" where
  "is_zero a \<longleftrightarrow> is_finite a \<and> valof a = 0"

definition sign_bit :: "float \<Rightarrow> bool" where
  "sign_bit a \<longleftrightarrow> a = NegZero \<or> a = NInf \<or> valof a < 0"

text \<open>
  Rounding to nearest, ties to even. The unit in the last place of a real \<open>r\<close> is
  \<open>2\<close> to the power \<open>ulp_exponent r\<close>: 23 binary places below the leading bit of \<open>r\<close>,
  and \<open>2 powi - 149\<close> in the subnormal range. A result that rounds to \<open>2 ^ 128\<close> or
  beyond is an infinity; a result other than zero that rounds to zero keeps its sign.
\<close>

definition ulp_exponent :: "real \<Rightarrow> int" where
  "ulp_exponent r = max (- 149) (\<lfloor>log 2 \<bar>r\<bar>\<rfloor> - 23)"

definition round_half_even :: "real \<Rightarrow> int" where
  "round_half_even q =
     (if q - of_int \<lfloor>q\<rfloor> < 1 / 2 then \<lfloor>q\<rfloor>
      else if 1 / 2 < q - of_int \<lfloor>q\<rfloor> then \<lfloor>q\<rfloor> + 1
      else if even \<lfloor>q\<rfloor> then \<lfloor>q\<rfloor>
      else \<lfloor>q\<rfloor> + 1)"

definition round_binary32 :: "real \<Rightarrow> real" where
  "round_binary32 r =
     (if r = 0 then 0
      else of_int (round_half_even (r / 2 powi ulp_exponent r)) * 2 powi ulp_exponent r)"

definition fl :: "real \<Rightarrow> float" where
  "fl r =
     (let v = round_binary32 r
      in if 2 ^ 128 \<le> v then PInf
         else if v \<le> - (2 ^ 128) then NInf
         else if v = 0 \<and> r < 0 then NegZero
         else Float v)"

text \<open>The conversions of an \<open>int\<close> and of an \<open>unsigned int\<close> to \<open>float\<close>.\<close>

definition float_of_int :: "int \<Rightarrow> float" where
  "float_of_int i = fl (real_of_int i)"

definition float_of_nat :: "nat \<Rightarrow> float" where
  "float_of_nat n = fl (real n)"

text \<open>Unary minus flips the sign, of zeros and infinities too.\<close>

definition fneg :: "float \<Rightarrow> float" where
  "fneg a =
     (case a of
        Float v \<Rightarrow> if v = 0 then NegZero else Float (- v)
      | NegZero \<Rightarrow> Float 0
      | PInf \<Rightarrow> NInf
      | NInf \<Rightarrow> PInf
      | NaN \<Rightarrow> NaN)"

text \<open>
  Addition. The sum of opposite infinities is NaN; an exact sum of zero is the positive
  zero unless both operands are the negative zero.
\<close>

definition fadd :: "float \<Rightarrow> float \<Rightarrow> float" where
  "fadd a b =
     (if a = NaN \<or> b = NaN then NaN
      else if a = PInf then (if b = NInf then NaN else PInf)
      else if a = NInf then (if b = PInf then NaN else NInf)
      else if b = PInf then PInf
      else if b = NInf then NInf
      else if valof a + valof b = 0
        then (if a = NegZero \<and> b = NegZero then NegZero else Float 0)
      else fl (valof a + valof b))"

definition fsub :: "float \<Rightarrow> float \<Rightarrow> float" where
  "fsub a b = fadd a (fneg b)"

text \<open>
  Multiplication and division. The sign of the result is the exclusive or of the signs
  of the operands; zero times infinity, zero over zero and infinity over infinity are
  NaN; a number other than zero over zero is an infinity.
\<close>

definition fmul :: "float \<Rightarrow> float \<Rightarrow> float" where
  "fmul a b =
     (if a = NaN \<or> b = NaN then NaN
      else if is_inf a \<or> is_inf b
        then (if is_zero a \<or> is_zero b then NaN
              else if sign_bit a \<noteq> sign_bit b then NInf else PInf)
      else if valof a * valof b = 0
        then (if sign_bit a \<noteq> sign_bit b then NegZero else Float 0)
      else fl (valof a * valof b))"

definition fdiv :: "float \<Rightarrow> float \<Rightarrow> float" where
  "fdiv a b =
     (if a = NaN \<or> b = NaN then NaN
      else if is_inf a
        then (if is_inf b then NaN
              else if sign_bit a \<noteq> sign_bit b then NInf else PInf)
      else if is_inf b
        then (if sign_bit a \<noteq> sign_bit b then NegZero else Float 0)
      else if is_zero b
        then (if is_zero a then NaN
              else if sign_bit a \<noteq> sign_bit b then NInf else PInf)
      else if is_zero a
        then (if sign_bit a \<noteq> sign_bit b then NegZero else Float 0)
      else fl (valof a / valof b))"

text \<open>
  Comparison: false when an operand is NaN; the two zeros are equal. \<open>a >= b\<close> is
  \<open>fge a b\<close>, which is not the negation of \<open>a < b\<close>.
\<close>

definition fle :: "float \<Rightarrow> float \<Rightarrow> bool" where
  "fle a b \<longleftrightarrow>
     a \<noteq> NaN \<and> b \<noteq> NaN
     \<and> (a = NInf \<or> b = PInf \<or> (a \<noteq> PInf \<and> b \<noteq> NInf \<and> valof a \<le> valof b))"

definition fge :: "float \<Rightarrow> float \<Rightarrow> bool" where
  "fge a b \<longleftrightarrow> fle b a"

subsection \<open>Vectors, rectangles and texture coordinates\<close>

text \<open>
  The declarations of the rectangle and of the texture coordinates are in Gamepad.h,
  which is not among the sources; Gamepad.cpp reads and writes the fields \<open>x\<close>, \<open>y\<close>,
  \<open>width\<close>, \<open>height\<close> of the one and \<open>u1\<close>, \<open>v1\<close>, \<open>u2\<close>, \<open>v2\<close> of the other, as the
  struct \<open>UVs\<close> of Theme.h has them.
\<close>

record Vector2 =
  vec_x :: float
  vec_y :: float

record Rect =
  rect_x :: float
  rect_y :: float
  rect_width :: float
  rect_height :: float

record UVs =
  uv_u1 :: float
  uv_v1 :: float
  uv_u2 :: float
  uv_v2 :: float

text \<open>
  Modelled from the spec: the class \<open>Vector2\<close> (Vector2.h and Vector2.cpp) is not among
  the sources. \<open>Vector2::zero\<close>, \<open>Vector2::set\<close> and \<open>Vector2::scale\<close> are what their
  names and their uses in Gamepad.cpp say: the vector of two zeros, the vector of the
  two arguments, and the product of each component with the factor.
\<close>

definition Vector2_zero :: Vector2 where
  "Vector2_zero = \<lparr>vec_x = Float 0, vec_y = Float 0\<rparr>"

definition Vector2_set :: "float \<Rightarrow> float \<Rightarrow> Vector2" where
  "Vector2_set a b = \<lparr>vec_x = a, vec_y = b\<rparr>"

definition Vector2_scale :: "float \<Rightarrow> Vector2 \<Rightarrow> Vector2" where
  "Vector2_scale s v = \<lparr>vec_x = fmul (vec_x v) s, vec_y = fmul (vec_y v) s\<rparr>"

text \<open>
  Modelled from the spec: \<open>Vector2::normalize\<close> is not among the sources. The
  specification describes its result as "the unit vector in the direction of" its
  argument; a unit vector has no exact single precision components in general, so the
  model rounds each component of the exact unit vector. A component that is zero stays
  as it is, and so does a vector that is zero or has a component that is not finite.
\<close>

definition Vector2_normalize :: "Vector2 \<Rightarrow> Vector2" where
  "Vector2_normalize v =
     (if is_finite (vec_x v) \<and> is_finite (vec_y v)
         \<and> \<not> (valof (vec_x v) = 0 \<and> valof (vec_y v) = 0)
      then
        (let n = sqrt (valof (vec_x v) * valof (vec_x v) + valof (vec_y v) * valof (vec_y v))
         in \<lparr>vec_x = (if valof (vec_x v) = 0 then vec_x v else fl (valof (vec_x v) / n)),
             vec_y = (if valof (vec_y v) = 0 then vec_y v else fl (valof (vec_y v) / n))\<rparr>)
      else v)"

text \<open>
  Modelled from the spec: the class \<open>Texture\<close> is not among the sources; the gamepad
  only reads its width and its height, which are unsigned integers.
\<close>

record Texture =
  getWidth :: nat
  getHeight :: nat

subsection \<open>Buttons, joysticks and the gamepad\<close>

datatype ButtonState = BUTTON_PRESSED | BUTTON_RELEASED

datatype TouchEvent = TOUCH_PRESS | TOUCH_RELEASE | TOUCH_MOVE | TOUCH_OTHER

text \<open>
  \<open>touchEvent\<close> is an \<open>int\<close> in the program; \<open>TOUCH_OTHER\<close> stands for every value that
  is none of the three enumerators, for which no \<open>case\<close> of a \<open>switch\<close> is taken.
\<close>

datatype error = AssertionFailed

definition INVALID_CONTACT_INDEX :: "32 word" where
  "INVALID_CONTACT_INDEX = - 1"

record Button =
  b_pressed :: ButtonState
  b_defaultTextureEnabled :: bool
  b_focusTextureEnabled :: bool
  b_contactIndex :: "32 word"
  b_region :: Rect
  b_defaultTexCoord :: UVs
  b_focusTexCoord :: UVs

record Joystick =
  j_displacement :: Vector2
  j_direction :: Vector2
  j_radius :: float
  j_defaultTextureInnerEnabled :: bool
  j_defaultTextureOuterEnabled :: bool
  j_contactIndex :: "32 word"
  j_regionInner :: Rect
  j_regionOuter :: Rect
  j_defaultTexCoordInner :: UVs
  j_defaultTexCoordOuter :: UVs

record Gamepad =
  joystickCount :: nat
  buttonCount :: nat
  texture :: Texture
  joysticks :: "Joystick list"
  buttons :: "Button list"

text \<open>
  \<open>Button::Button\<close> and \<open>Joystick::Joystick\<close> initialise the fields of their initialiser
  lists and leave the regions and the texture coordinates as they are in the memory of
  the new object, \<open>mem\<close>.
\<close>

definition Button_ctor :: "Button \<Rightarrow> Button" where
  "Button_ctor mem =
     mem\<lparr>b_pressed := BUTTON_RELEASED, b_defaultTextureEnabled := False,
         b_focusTextureEnabled := False, b_contactIndex := INVALID_CONTACT_INDEX\<rparr>"

definition Joystick_ctor :: "Joystick \<Rightarrow> Joystick" where
  "Joystick_ctor mem =
     mem\<lparr>j_displacement := Vector2_zero, j_direction := Vector2_zero, j_radius := Float 0,
         j_defaultTextureInnerEnabled := False, j_defaultTextureOuterEnabled := False,
         j_contactIndex := INVALID_CONTACT_INDEX\<rparr>"

text \<open>
  \<open>Gamepad::Gamepad\<close>. \<open>texturePath\<close> is the path argument (\<open>None\<close> for \<open>NULL\<close>),
  \<open>created\<close> is what \<open>Texture::create\<close> returns for it, and \<open>joystick_mem i\<close> and
  \<open>button_mem i\<close> are the memory that \<open>new\<close> returns for the joystick and the button of
  index \<open>i\<close>. The two asserts on the counts compare each count with itself and cannot
  fail.
\<close>

definition Gamepad_ctor ::
  "string option \<Rightarrow> Texture option \<Rightarrow> nat \<Rightarrow> nat \<Rightarrow> (nat \<Rightarrow> Joystick) \<Rightarrow> (nat \<Rightarrow> Button)
     \<Rightarrow> error + Gamepad" where
  "Gamepad_ctor texturePath created joysticks_n buttons_n joystick_mem button_mem =
     (case texturePath of
        None \<Rightarrow> Inl AssertionFailed
      | Some p \<Rightarrow>
          (case created of
             None \<Rightarrow> Inl AssertionFailed
           | Some t \<Rightarrow>
               Inr \<lparr>joystickCount = joysticks_n, buttonCount = buttons_n, texture = t,
                    joysticks = map (\<lambda>i. Joystick_ctor (joystick_mem i)) [0..<joysticks_n],
                    buttons = map (\<lambda>i. Button_ctor (button_mem i)) [0..<buttons_n]\<rparr>))"

text \<open>The arrays hold as many elements as their counts say.\<close>

definition wf_Gamepad :: "Gamepad \<Rightarrow> bool" where
  "wf_Gamepad g \<longleftrightarrow>
     length (buttons g) = buttonCount g \<and> length (joysticks g) = joystickCount g"

subsection \<open>Setters and getters\<close>

text \<open>
  The four blocks of \<open>setButton\<close> and \<open>setJoystick\<close> that compute texture coordinates
  are the same assignments on different fields: \<open>u1 = x / w\<close>, \<open>v1 = 1.0f - y / h\<close>,
  \<open>u2 = u1 + width / w\<close>, \<open>v2 = v1 - height / h\<close>, where \<open>w\<close> and \<open>h\<close> are the width and
  the height of the texture converted to \<open>float\<close>.
\<close>

definition texCoord :: "Texture \<Rightarrow> Rect \<Rightarrow> UVs" where
  "texCoord t r =
     (let u1 = fdiv (rect_x r) (float_of_nat (getWidth t));
          v1 = fsub (Float 1) (fdiv (rect_y r) (float_of_nat (getHeight t)));
          u2 = fadd u1 (fdiv (rect_width r) (float_of_nat (getWidth t)));
          v2 = fsub v1 (fdiv (rect_height r) (float_of_nat (getHeight t)))
      in \<lparr>uv_u1 = u1, uv_v1 = v1, uv_u2 = u2, uv_v2 = v2\<rparr>)"

definition setButton_at :: "Texture \<Rightarrow> Rect option \<Rightarrow> Rect option \<Rightarrow> Rect option \<Rightarrow> Button \<Rightarrow> Button" where
  "setButton_at t bounds defaultTextureRegion focusTextureRegion b =
     (let b1 = (case bounds of None \<Rightarrow> b
                | Some r \<Rightarrow> b\<lparr>b_region := \<lparr>rect_x = rect_x r, rect_y = rect_y r,
                                            rect_width = rect_width r, rect_height = rect_height r\<rparr>\<rparr>);
          b2 = (case defaultTextureRegion of None \<Rightarrow> b1
                | Some r \<Rightarrow> b1\<lparr>b_defaultTexCoord := texCoord t r, b_defaultTextureEnabled := True\<rparr>);
          b3 = (case focusTextureRegion of None \<Rightarrow> b2
                | Some r \<Rightarrow> b2\<lparr>b_focusTexCoord := texCoord t r, b_focusTextureEnabled := True\<rparr>)
      in b3)"

definition setButton :: "Gamepad \<Rightarrow> nat \<Rightarrow> Rect option \<Rightarrow> Rect option \<Rightarrow> Rect option \<Rightarrow> error + Gamepad" where
  "setButton g buttonId bounds defaultTextureRegion focusTextureRegion =
     (if buttonId < buttonCount g
      then Inr (g\<lparr>buttons := (buttons g)[buttonId :=
                  setButton_at (texture g) bounds defaultTextureRegion focusTextureRegion
                    (buttons g ! buttonId)]\<rparr>)
      else Inl AssertionFailed)"

definition getButtonState :: "Gamepad \<Rightarrow> nat \<Rightarrow> error + ButtonState" where
  "getButtonState g index =
     (if index < buttonCount g then Inr (b_pressed (buttons g ! index))
      else Inl AssertionFailed)"

definition setJoystick_at :: "Texture \<Rightarrow> Rect option \<Rightarrow> Rect option \<Rightarrow> Rect option \<Rightarrow> Rect option \<Rightarrow> float \<Rightarrow> Joystick \<Rightarrow> Joystick" where
  "setJoystick_at t regionInner textureRegionInner regionOuter textureRegionOuter radius j =
     (let j0 = j\<lparr>j_radius := radius\<rparr>;
          j1 = (case regionInner of None \<Rightarrow> j0
                | Some r \<Rightarrow> j0\<lparr>j_regionInner := \<lparr>rect_x = rect_x r, rect_y = rect_y r,
                                                  rect_width = rect_width r, rect_height = rect_height r\<rparr>\<rparr>);
          j2 = (case textureRegionInner of None \<Rightarrow> j1
                | Some r \<Rightarrow> j1\<lparr>j_defaultTexCoordInner := texCoord t r,
                               j_defaultTextureInnerEnabled := True\<rparr>);
          j3 = (case regionOuter of None \<Rightarrow> j2
                | Some r \<Rightarrow> j2\<lparr>j_regionOuter := \<lparr>rect_x = rect_x r, rect_y = rect_y r,
                                                  rect_width = rect_width r, rect_height = rect_height r\<rparr>\<rparr>);
          j4 = (case textureRegionOuter of None \<Rightarrow> j3
                | Some r \<Rightarrow> j3\<lparr>j_defaultTexCoordOuter := texCoord t r,
                               j_defaultTextureOuterEnabled := True\<rparr>)
      in j4)"

definition setJoystick :: "Gamepad \<Rightarrow> nat \<Rightarrow> Rect option \<Rightarrow> Rect option \<Rightarrow> Rect option \<Rightarrow> Rect option \<Rightarrow> float \<Rightarrow> error + Gamepad" where
  "setJoystick g joystickId regionInner textureRegionInner regionOuter textureRegionOuter radius =
     (if joystickId < joystickCount g
      then Inr (g\<lparr>joysticks := (joysticks g)[joystickId :=
                  setJoystick_at (texture g) regionInner textureRegionInner regionOuter
                    textureRegionOuter radius (joysticks g ! joystickId)]\<rparr>)
      else Inl AssertionFailed)"

definition isJoystickActive :: "Gamepad \<Rightarrow> nat \<Rightarrow> error + bool" where
  "isJoystickActive g index =
     (if index < joystickCount g
      then Inr (j_contactIndex (joysticks g ! index) \<noteq> INVALID_CONTACT_INDEX)
      else Inl AssertionFailed)"

definition getJoystickState :: "Gamepad \<Rightarrow> nat \<Rightarrow> error + Vector2" where
  "getJoystickState g index =
     (if index < joystickCount g then Inr (j_direction (joysticks g ! index))
      else Inl AssertionFailed)"

subsection \<open>Touch\<close>

text \<open>The body of the loop over the buttons, for the button at hand.\<close>

definition touch_button :: "int \<Rightarrow> int \<Rightarrow> TouchEvent \<Rightarrow> 32 word \<Rightarrow> Button \<Rightarrow> Button" where
  "touch_button x y touchEvent contactIndex b =
     (case touchEvent of
        TOUCH_PRESS \<Rightarrow>
          (if b_contactIndex b = INVALID_CONTACT_INDEX
           then (if fge (float_of_int x) (rect_x (b_region b))
                    \<and> fle (float_of_int x) (fadd (rect_x (b_region b)) (rect_width (b_region b)))
                    \<and> fge (float_of_int y) (rect_y (b_region b))
                    \<and> fle (float_of_int y) (fadd (rect_y (b_region b)) (rect_height (b_region b)))
                 then b\<lparr>b_contactIndex := contactIndex, b_pressed := BUTTON_PRESSED\<rparr>
                 else b)
           else b)
      | TOUCH_RELEASE \<Rightarrow>
          (if b_contactIndex b = contactIndex
           then b\<lparr>b_contactIndex := - 1, b_pressed := BUTTON_RELEASED\<rparr>
           else b)
      | _ \<Rightarrow> b)"

text \<open>
  The three blocks of the \<open>switch\<close> over the joysticks. The block of \<open>TOUCH_PRESS\<close>
  ends without a \<open>break\<close>, so control falls through into the block of \<open>TOUCH_MOVE\<close>.
\<close>

definition joystick_press :: "int \<Rightarrow> int \<Rightarrow> 32 word \<Rightarrow> Joystick \<Rightarrow> Joystick" where
  "joystick_press x y contactIndex j =
     (let bx = rect_x (j_regionInner j);
          by = rect_y (j_regionInner j);
          bradius = j_radius j
      in if fge (float_of_int x) (fsub bx bradius) \<and> fle (float_of_int x) (fadd bx bradius)
            \<and> fge (float_of_int y) (fsub by bradius) \<and> fle (float_of_int y) (fadd by bradius)
            \<and> j_contactIndex j = INVALID_CONTACT_INDEX
         then j\<lparr>j_contactIndex := contactIndex,
                j_displacement := Vector2_set (Float 0) (Float 0),
                j_direction := Vector2_set (Float 0) (Float 0)\<rparr>
         else j)"

definition joystick_move :: "int \<Rightarrow> int \<Rightarrow> 32 word \<Rightarrow> Joystick \<Rightarrow> Joystick" where
  "joystick_move x y contactIndex j =
     (if j_contactIndex j = contactIndex
      then
        (let displacementX = fsub (float_of_int x) (rect_x (j_regionInner j));
             displacementY = fsub (float_of_int y) (rect_y (j_regionInner j));
             radius = j_radius j;
             j1 = (if fle (fadd (fmul displacementX displacementX)
                                (fmul displacementY displacementY))
                          (fmul radius radius)
                   then j\<lparr>j_direction :=
                            Vector2_scale (fdiv (Float 1) radius)
                              (Vector2_set displacementX (fneg displacementY))\<rparr>
                   else j\<lparr>j_direction :=
                            Vector2_normalize (Vector2_scale radius
                              (Vector2_normalize (Vector2_set displacementX (fneg displacementY))))\<rparr>)
         in j1\<lparr>j_displacement := Vector2_set displacementX displacementY\<rparr>)
      else j)"

definition joystick_release :: "32 word \<Rightarrow> Joystick \<Rightarrow> Joystick" where
  "joystick_release contactIndex j =
     (if j_contactIndex j = contactIndex
      then j\<lparr>j_contactIndex := - 1,
             j_displacement := Vector2_set (Float 0) (Float 0),
             j_direction := Vector2_set (Float 0) (Float 0)\<rparr>
      else j)"

definition touch_joystick :: "int \<Rightarrow> int \<Rightarrow> TouchEvent \<Rightarrow> 32 word \<Rightarrow> Joystick \<Rightarrow> Joystick" where
  "touch_joystick x y touchEvent contactIndex j =
     (case touchEvent of
        TOUCH_PRESS \<Rightarrow> joystick_move x y contactIndex (joystick_press x y contactIndex j)
      | TOUCH_MOVE \<Rightarrow> joystick_move x y contactIndex j
      | TOUCH_RELEASE \<Rightarrow> joystick_release contactIndex j
      | TOUCH_OTHER \<Rightarrow> j)"

text \<open>
  \<open>Gamepad::touch\<close>. \<open>MAX_TOUCH_INPUTS\<close> is a macro of a header that is not among the
  sources, so it is a parameter. Each loop runs its index from 0 up to the count and
  rewrites the element at the index.
\<close>

definition Gamepad_touch :: "32 word \<Rightarrow> Gamepad \<Rightarrow> int \<Rightarrow> int \<Rightarrow> TouchEvent \<Rightarrow> 32 word \<Rightarrow> Gamepad" where
  "Gamepad_touch MAX_TOUCH_INPUTS g x y touchEvent contactIndex =
     (if contactIndex \<ge> MAX_TOUCH_INPUTS then g
      else
        (let g1 = foldl (\<lambda>s i. s\<lparr>buttons := (buttons s)[i :=
                            touch_button x y touchEvent contactIndex (buttons s ! i)]\<rparr>)
                    g [0..<buttonCount g];
             g2 = foldl (\<lambda>s i. s\<lparr>joysticks := (joysticks s)[i :=
                            touch_joystick x y touchEvent contactIndex (joysticks s ! i)]\<rparr>)
                    g1 [0..<joystickCount g1]
         in g2))"

subsection \<open>Draw\<close>

text \<open>
  The sprite batch is not among the sources; what \<open>Gamepad::draw\<close> hands to it is the
  list of its calls of \<open>SpriteBatch::draw\<close>, in order. The colour is passed on as it is.
\<close>

type_synonym Vector4 = "float \<times> float \<times> float \<times> float"

record Sprite =
  sprite_x :: float
  sprite_y :: float
  sprite_width :: float
  sprite_height :: float
  sprite_uvs :: UVs
  sprite_color :: Vector4

definition draw_button :: "Vector4 \<Rightarrow> Button \<Rightarrow> Sprite list" where
  "draw_button color b =
     (if b_pressed b = BUTTON_PRESSED \<and> b_focusTextureEnabled b
      then [\<lparr>sprite_x = rect_x (b_region b), sprite_y = rect_y (b_region b),
             sprite_width = rect_width (b_region b), sprite_height = rect_height (b_region b),
             sprite_uvs = b_focusTexCoord b, sprite_color = color\<rparr>]
      else if b_defaultTextureEnabled b
      then [\<lparr>sprite_x = rect_x (b_region b), sprite_y = rect_y (b_region b),
             sprite_width = rect_width (b_region b), sprite_height = rect_height (b_region b),
             sprite_uvs = b_defaultTexCoord b, sprite_color = color\<rparr>]
      else [])"

definition draw_joystick_outer :: "Vector4 \<Rightarrow> Joystick \<Rightarrow> Sprite list" where
  "draw_joystick_outer color j =
     (if j_defaultTextureOuterEnabled j
      then
        (let x = rect_x (j_regionOuter j);
             y = rect_y (j_regionOuter j);
             width = rect_width (j_regionOuter j);
             height = rect_height (j_regionOuter j);
             x = fsub x (fmul width (Float (1 / 2)));
             y = fsub y (fmul height (Float (1 / 2)))
         in [\<lparr>sprite_x = x, sprite_y = y, sprite_width = width, sprite_height = height,
               sprite_uvs = j_defaultTexCoordOuter j, sprite_color = color\<rparr>])
      else [])"

definition draw_joystick_inner :: "Vector4 \<Rightarrow> Joystick \<Rightarrow> Sprite list" where
  "draw_joystick_inner color j =
     (if j_defaultTextureInnerEnabled j
      then
        (let x = rect_x (j_regionInner j);
             y = rect_y (j_regionInner j);
             width = rect_width (j_regionInner j);
             height = rect_height (j_regionInner j);
             radius = j_radius j;
             displacementX = vec_x (j_displacement j);
             displacementY = vec_y (j_displacement j);
             delta = (if fle (fadd (fmul displacementX displacementX)
                                   (fmul displacementY displacementY))
                             (fmul radius radius)
                      then Vector2_set displacementX displacementY
                      else Vector2_scale radius
                             (Vector2_normalize (Vector2_set displacementX displacementY)));
             x = fadd x (vec_x delta);
             y = fadd y (vec_y delta);
             x = fsub x (fmul width (Float (1 / 2)));
             y = fsub y (fmul height (Float (1 / 2)))
         in [\<lparr>sprite_x = x, sprite_y = y, sprite_width = width, sprite_height = height,
               sprite_uvs = j_defaultTexCoordInner j, sprite_color = color\<rparr>])
      else [])"

definition Gamepad_draw :: "Gamepad \<Rightarrow> Vector4 \<Rightarrow> Sprite list" where
  "Gamepad_draw g color =
     concat (map (\<lambda>i. draw_button color (buttons g ! i)) [0..<buttonCount g])
     @ concat (map (\<lambda>i. draw_joystick_outer color (joysticks g ! i)
                          @ draw_joystick_inner color (joysticks g ! i))
                 [0..<joystickCount g])"

subsection \<open>Notions of the specification\<close>

text \<open>
  The specification speaks of points, boxes and magnitudes in exact arithmetic: of the
  real numbers that the stored floats stand for. A point lies in a region, bounds
  included, and in the box around the position of a joystick:
\<close>

definition region_contains :: "Rect \<Rightarrow> int \<Rightarrow> int \<Rightarrow> bool" where
  "region_contains r x y \<longleftrightarrow>
     valof (rect_x r) \<le> real_of_int x
     \<and> real_of_int x \<le> valof (rect_x r) + valof (rect_width r)
     \<and> valof (rect_y r) \<le> real_of_int y
     \<and> real_of_int y \<le> valof (rect_y r) + valof (rect_height r)"

definition box_contains :: "Joystick \<Rightarrow> int \<Rightarrow> int \<Rightarrow> bool" where
  "box_contains j x y \<longleftrightarrow>
     valof (rect_x (j_regionInner j)) - valof (j_radius j) \<le> real_of_int x
     \<and> real_of_int x \<le> valof (rect_x (j_regionInner j)) + valof (j_radius j)
     \<and> valof (rect_y (j_regionInner j)) - valof (j_radius j) \<le> real_of_int y
     \<and> real_of_int y \<le> valof (rect_y (j_regionInner j)) + valof (j_radius j)"

text \<open>The magnitude of a vector of two reals, and of a vector of two floats.\<close>

definition magnitude :: "real \<Rightarrow> real \<Rightarrow> real" where
  "magnitude a b = sqrt (a * a + b * b)"

definition Vector2_magnitude :: "Vector2 \<Rightarrow> real" where
  "Vector2_magnitude v = magnitude (valof (vec_x v)) (valof (vec_y v))"

text \<open>
  Texture coordinates lie within the texture when each of them is in the interval from
  0 to 1, and a rectangle lies within a texture when its four sides do.
\<close>

definition in_unit :: "float \<Rightarrow> bool" where
  "in_unit a \<longleftrightarrow> fle (Float 0) a \<and> fle a (Float 1)"

definition uvs_in_unit :: "UVs \<Rightarrow> bool" where
  "uvs_in_unit uv \<longleftrightarrow>
     in_unit (uv_u1 uv) \<and> in_unit (uv_v1 uv) \<and> in_unit (uv_u2 uv) \<and> in_unit (uv_v2 uv)"

definition rect_in_texture :: "Texture \<Rightarrow> Rect \<Rightarrow> bool" where
  "rect_in_texture t r \<longleftrightarrow>
     is_finite (rect_x r) \<and> is_finite (rect_y r)
     \<and> is_finite (rect_width r) \<and> is_finite (rect_height r)
     \<and> 0 < getWidth t \<and> 0 < getHeight t
     \<and> 0 \<le> valof (rect_x r) \<and> 0 \<le> valof (rect_width r)
     \<and> valof (rect_x r) + valof (rect_width r) \<le> real (getWidth t)
     \<and> 0 \<le> valof (rect_y r) \<and> 0 \<le> valof (rect_height r)
     \<and> valof (rect_y r) + valof (rect_height r) \<le> real (getHeight t)"

text \<open>
  The centre of the sprite that \<open>Gamepad::draw\<close> draws for the inner joggle of a
  joystick, as an offset from the position of the inner region, in exact arithmetic.
\<close>

definition joggle_offset_x :: "Vector4 \<Rightarrow> Joystick \<Rightarrow> real" where
  "joggle_offset_x color j =
     valof (sprite_x (hd (draw_joystick_inner color j)))
       + valof (sprite_width (hd (draw_joystick_inner color j))) / 2
       - valof (rect_x (j_regionInner j))"

definition joggle_offset_y :: "Vector4 \<Rightarrow> Joystick \<Rightarrow> real" where
  "joggle_offset_y color j =
     valof (sprite_y (hd (draw_joystick_inner color j)))
       + valof (sprite_height (hd (draw_joystick_inner color j))) / 2
       - valof (rect_y (j_regionInner j))"

text \<open>
  The test by which the program finds the displacement of a joystick within its
  radius, and the offset that \<open>Gamepad::draw\<close> adds to the position of the inner
  region: the displacement, or the normalised displacement scaled by the radius.
\<close>

definition within_radius :: "Joystick \<Rightarrow> bool" where
  "within_radius j \<longleftrightarrow>
     fle (fadd (fmul (vec_x (j_displacement j)) (vec_x (j_displacement j)))
               (fmul (vec_y (j_displacement j)) (vec_y (j_displacement j))))
         (fmul (j_radius j) (j_radius j))"

definition joggle_delta :: "Joystick \<Rightarrow> Vector2" where
  "joggle_delta j =
     (if within_radius j then j_displacement j
      else Vector2_scale (j_radius j) (Vector2_normalize (j_displacement j)))"

text \<open>
  Calls of the two setters, and a run of them that stops at the first failed assert;
  a touch event, and a run of touch events.
\<close>

datatype SetterCall =
  SetButton nat "Rect option" "Rect option" "Rect option"
  | SetJoystick nat "Rect option" "Rect option" "Rect option" "Rect option" float

fun call_setter :: "Gamepad \<Rightarrow> SetterCall \<Rightarrow> error + Gamepad" where
  "call_setter g (SetButton i bounds dflt focus) = setButton g i bounds dflt focus"
| "call_setter g (SetJoystick i inner texInner outer texOuter radius) =
     setJoystick g i inner texInner outer texOuter radius"

fun call_setters :: "Gamepad \<Rightarrow> SetterCall list \<Rightarrow> error + Gamepad" where
  "call_setters g [] = Inr g"
| "call_setters g (c # cs) =
     (case call_setter g c of Inl e \<Rightarrow> Inl e | Inr g' \<Rightarrow> call_setters g' cs)"

record TouchCall =
  touch_x :: int
  touch_y :: int
  touch_event :: TouchEvent
  touch_contact :: "32 word"

fun touches :: "32 word \<Rightarrow> Gamepad \<Rightarrow> TouchCall list \<Rightarrow> Gamepad" where
  "touches MAX_TOUCH_INPUTS g [] = g"
| "touches MAX_TOUCH_INPUTS g (t # ts) =
     touches MAX_TOUCH_INPUTS
       (Gamepad_touch MAX_TOUCH_INPUTS g (touch_x t) (touch_y t) (touch_event t) (touch_contact t))
       ts"

text \<open>
  The three kinds of direction vector that the code stores for a joystick: the zero
  vector; the displacement, with \<open>y\<close> negated, scaled by \<open>1.0f / radius\<close>, when the
  program finds the displacement within the radius; and otherwise the normalised vector
  of the clamped branch.
\<close>

definition direction_kinds :: "Joystick \<Rightarrow> bool" where
  "direction_kinds j \<longleftrightarrow>
     j_direction j = Vector2_zero
     \<or> (within_radius j
        \<and> j_direction j =
            Vector2_scale (fdiv (Float 1) (j_radius j))
              (Vector2_set (vec_x (j_displacement j)) (fneg (vec_y (j_displacement j)))))
     \<or> (\<not> within_radius j
        \<and> j_direction j =
            Vector2_normalize (Vector2_scale (j_radius j)
              (Vector2_normalize
                (Vector2_set (vec_x (j_displacement j)) (fneg (vec_y (j_displacement j)))))))"

subsection \<open>A gamepad with two buttons and one joystick\<close>

text \<open>Memory of zeros for the objects that the constructor allocates.\<close>

definition zero_Rect :: Rect where
  "zero_Rect = \<lparr>rect_x = Float 0, rect_y = Float 0, rect_width = Float 0, rect_height = Float 0\<rparr>"

definition zero_UVs :: UVs where
  "zero_UVs = \<lparr>uv_u1 = Float 0, uv_v1 = Float 0, uv_u2 = Float 0, uv_v2 = Float 0\<rparr>"

definition zero_button :: Button where
  "zero_button =
     \<lparr>b_pressed = BUTTON_RELEASED, b_defaultTextureEnabled = False,
      b_focusTextureEnabled = False, b_contactIndex = 0,
      b_region = zero_Rect, b_defaultTexCoord = zero_UVs, b_focusTexCoord = zero_UVs\<rparr>"

definition zero_joystick :: Joystick where
  "zero_joystick =
     \<lparr>j_displacement = Vector2_zero, j_direction = Vector2_zero, j_radius = Float 0,
      j_defaultTextureInnerEnabled = False, j_defaultTextureOuterEnabled = False,
      j_contactIndex = 0,
      j_regionInner = zero_Rect, j_regionOuter = zero_Rect,
      j_defaultTexCoordInner = zero_UVs, j_defaultTexCoordOuter = zero_UVs\<rparr>"

definition example_texture :: Texture where
  "example_texture = \<lparr>getWidth = 256, getHeight = 128\<rparr>"

definition example_fresh :: Gamepad where
  "example_fresh =
     \<lparr>joystickCount = 1, buttonCount = 2, texture = example_texture,
      joysticks = [Joystick_ctor zero_joystick],
      buttons = [Button_ctor zero_button, Button_ctor zero_button]\<rparr>"

definition example_setup :: "SetterCall list" where
  "example_setup =
     [SetButton 0
        (Some \<lparr>rect_x = Float 0, rect_y = Float 0, rect_width = Float 64, rect_height = Float 64\<rparr>)
        (Some \<lparr>rect_x = Float 0, rect_y = Float 0, rect_width = Float 64, rect_height = Float 64\<rparr>)
        None,
      SetButton 1
        (Some \<lparr>rect_x = Float 100, rect_y = Float 0, rect_width = Float 64, rect_height = Float 64\<rparr>)
        None None,
      SetJoystick 0
        (Some \<lparr>rect_x = Float 200, rect_y = Float 200, rect_width = Float 32, rect_height = Float 32\<rparr>)
        (Some \<lparr>rect_x = Float 64, rect_y = Float 0, rect_width = Float 32, rect_height = Float 32\<rparr>)
        None None (Float 64)]"

definition example_pad :: Gamepad where
  "example_pad =
     \<lparr>joystickCount = 1, buttonCount = 2, texture = example_texture,
      joysticks =
        [(Joystick_ctor zero_joystick)
           \<lparr>j_radius := Float 64,
            j_regionInner :=
              \<lparr>rect_x = Float 200, rect_y = Float 200, rect_width = Float 32, rect_height = Float 32\<rparr>,
            j_defaultTexCoordInner :=
              \<lparr>uv_u1 = Float (1 / 4), uv_v1 = Float 1, uv_u2 = Float (3 / 8), uv_v2 = Float (3 / 4)\<rparr>,
            j_defaultTextureInnerEnabled := True\<rparr>],
      buttons =
        [(Button_ctor zero_button)
           \<lparr>b_region :=
              \<lparr>rect_x = Float 0, rect_y = Float 0, rect_width = Float 64, rect_height = Float 64\<rparr>,
            b_defaultTexCoord :=
              \<lparr>uv_u1 = Float 0, uv_v1 = Float 1, uv_u2 = Float (1 / 4), uv_v2 = Float (1 / 2)\<rparr>,
            b_defaultTextureEnabled := True\<rparr>,
         (Button_ctor zero_button)
           \<lparr>b_region :=
              \<lparr>rect_x = Float 100, rect_y = Float 0, rect_width = Float 64, rect_height = Float 64\<rparr>\<rparr>]\<rparr>"

text \<open>
  The example gamepad after contact 0 pressed the first button at \<open>(10, 10)\<close> and
  contact 1 pressed the joystick at \<open>(203, 204)\<close>.
\<close>

definition example_touches :: "TouchCall list" where
  "example_touches =
     [\<lparr>touch_x = 10, touch_y = 10, touch_event = TOUCH_PRESS, touch_contact = 0\<rparr>,
      \<lparr>touch_x = 203, touch_y = 204, touch_event = TOUCH_PRESS, touch_contact = 1\<rparr>]"

definition example_held :: Gamepad where
  "example_held =
     example_pad
       \<lparr>joysticks :=
          [(joysticks example_pad ! 0)
             \<lparr>j_contactIndex := 1,
              j_displacement := \<lparr>vec_x = Float 3, vec_y = Float 4\<rparr>,
              j_direction := \<lparr>vec_x = Float (3 / 64), vec_y = Float (- (1 / 16))\<rparr>\<rparr>],
        buttons :=
          [(buttons example_pad ! 0)\<lparr>b_contactIndex := 0, b_pressed := BUTTON_PRESSED\<rparr>,
           buttons example_pad ! 1]\<rparr>"

text \<open>
  A gamepad at the edge of the integers that single precision holds: one button whose
  region is the single point \<open>(2 ^ 24, 0)\<close>, and one joystick at the same position with
  the radius one half.
\<close>

definition edge_setup :: "SetterCall list" where
  "edge_setup =
     [SetButton 0
        (Some \<lparr>rect_x = Float 16777216, rect_y = Float 0, rect_width = Float 0, rect_height = Float 0\<rparr>)
        None None,
      SetJoystick 0
        (Some \<lparr>rect_x = Float 16777216, rect_y = Float 0, rect_width = Float 0, rect_height = Float 0\<rparr>)
        None None None (Float (1 / 2))]"

definition edge_fresh :: Gamepad where
  "edge_fresh =
     \<lparr>joystickCount = 1, buttonCount = 1, texture = example_texture,
      joysticks = [Joystick_ctor zero_joystick],
      buttons = [Button_ctor zero_button]\<rparr>"

definition edge_pad :: Gamepad where
  "edge_pad =
     \<lparr>joystickCount = 1, buttonCount = 1, texture = example_texture,
      joysticks =
        [(Joystick_ctor zero_joystick)
           \<lparr>j_radius := Float (1 / 2),
            j_regionInner :=
              \<lparr>rect_x = Float 16777216, rect_y = Float 0, rect_width = Float 0, rect_height = Float 0\<rparr>\<rparr>],
      buttons =
        [(Button_ctor zero_button)
           \<lparr>b_region :=
              \<lparr>rect_x = Float 16777216, rect_y = Float 0, rect_width = Float 0, rect_height = Float 0\<rparr>\<rparr>]\<rparr>"

text \<open>
  A gamepad with one joystick at the origin with the radius 41, held by contact 0
  after a press at the origin.
\<close>

definition setup_41 :: "SetterCall list" where
  "setup_41 = [SetJoystick 0 None None None None (Float 41)]"

definition fresh_stick :: Gamepad where
  "fresh_stick =
     \<lparr>joystickCount = 1, buttonCount = 0, texture = example_texture,
      joysticks = [Joystick_ctor zero_joystick], buttons = []\<rparr>"

definition pad_41 :: Gamepad where
  "pad_41 = fresh_stick\<lparr>joysticks := [(Joystick_ctor zero_joystick)\<lparr>j_radius := Float 41\<rparr>]\<rparr>"

definition held_41 :: Gamepad where
  "held_41 =
     fresh_stick
       \<lparr>joysticks :=
          [(Joystick_ctor zero_joystick)
             \<lparr>j_radius := Float 41, j_contactIndex := 0,
              j_direction := \<lparr>vec_x = Float 0, vec_y = NegZero\<rparr>\<rparr>]\<rparr>"

text \<open>
  A gamepad with one joystick at \<open>(200, 200)\<close> with the radius 5, and the example
  gamepad after \<open>setJoystick\<close> gave its joystick the radius \<open>- 1\<close>.
\<close>

definition setup_5 :: "SetterCall list" where
  "setup_5 =
     [SetJoystick 0
        (Some \<lparr>rect_x = Float 200, rect_y = Float 200, rect_width = Float 0, rect_height = Float 0\<rparr>)
        None None None (Float 5)]"

definition pad_5 :: Gamepad where
  "pad_5 =
     fresh_stick
       \<lparr>joysticks :=
          [(Joystick_ctor zero_joystick)
             \<lparr>j_radius := Float 5,
              j_regionInner :=
                \<lparr>rect_x = Float 200, rect_y = Float 200, rect_width = Float 0, rect_height = Float 0\<rparr>\<rparr>]\<rparr>"

definition example_negative :: Gamepad where
  "example_negative =
     example_pad\<lparr>joysticks := [(joysticks example_pad ! 0)\<lparr>j_radius := Float (- 1)\<rparr>]\<rparr>"

text \<open>
  A texture region to the right of the example texture, and the example gamepad after
  \<open>setButton\<close> made it the default texture region of the second button.
\<close>

definition outside_region :: Rect where
  "outside_region =
     \<lparr>rect_x = Float 512, rect_y = Float 0, rect_width = Float 64, rect_height = Float 64\<rparr>"

definition example_outside :: Gamepad where
  "example_outside =
     example_pad
       \<lparr>buttons :=
          [buttons example_pad ! 0,
           (buttons example_pad ! 1)
             \<lparr>b_defaultTexCoord :=
                \<lparr>uv_u1 = Float 2, uv_v1 = Float 1, uv_u2 = Float (9 / 4), uv_v2 = Float (1 / 2)\<rparr>,
              b_defaultTextureEnabled := True\<rparr>]\<rparr>"

text \<open>
  A texture 256 wide and 100 high, the region of its lower 67 rows that is 64 wide,
  and a gamepad with that texture after \<open>setJoystick\<close> made the region the inner
  texture region of its joystick.
\<close>

definition texture_100 :: Texture where
  "texture_100 = \<lparr>getWidth = 256, getHeight = 100\<rparr>"

definition region_100 :: Rect where
  "region_100 =
     \<lparr>rect_x = Float 0, rect_y = Float 33, rect_width = Float 64, rect_height = Float 67\<rparr>"

definition fresh_100 :: Gamepad where
  "fresh_100 = fresh_stick\<lparr>texture := texture_100\<rparr>"

definition pad_100 :: Gamepad where
  "pad_100 =
     fresh_100
       \<lparr>joysticks :=
          [(Joystick_ctor zero_joystick)
             \<lparr>j_radius := Float 10,
              j_defaultTexCoordInner :=
                \<lparr>uv_u1 = Float 0, uv_v1 = Float (5620367 / 8388608),
                 uv_u2 = Float (1 / 4), uv_v2 = Float (- (1 / 16777216))\<rparr>,
              j_defaultTextureInnerEnabled := True\<rparr>]\<rparr>"

section \<open>Properties\<close>

subsection \<open>Rounding\<close>

text \<open>
  The unit in the last place of a real between \<open>2 powi e\<close> and \<open>2 powi (e + 1)\<close> is
  \<open>2 powi (e - 23)\<close>, which gives the rounding of a given real by evaluation; a real
  \<open>n * 2 powi e\<close> with \<open>\<bar>n\<bar> < 2 ^ 24\<close> is a single precision number and rounds to
  itself.
\<close>

lemma powr_powi: "(2::real) powr real_of_int k = 2 powi k"
  by (simp add: powr_real_of_int power_int_def power_one_over inverse_eq_divide)

lemma floor_log2_eq:
  assumes "2 powi e \<le> \<bar>r\<bar>" and "\<bar>r\<bar> < 2 powi (e + 1)"
  shows "\<lfloor>log 2 \<bar>r\<bar>\<rfloor> = e"
proof -
  have pos: "0 < \<bar>r\<bar>"
    using assms(1) by (smt (verit) zero_less_power_int)
  have "2 powr real_of_int e \<le> \<bar>r\<bar> \<and> \<bar>r\<bar> < 2 powr (real_of_int e + 1)"
    using assms powr_powi [of e] powr_powi [of "e + 1"] by simp
  with pos show ?thesis
    by (simp add: floor_log_eq_powr_iff)
qed

lemma ulp_exponent_eq:
  assumes "2 powi e \<le> \<bar>r\<bar>" and "\<bar>r\<bar> < 2 powi (e + 1)" and "- 126 \<le> e"
  shows "ulp_exponent r = e - 23"
  using assms(3) by (simp add: ulp_exponent_def floor_log2_eq [OF assms(1,2)])

lemma round_half_even_int: "round_half_even (of_int k) = k"
  by (simp add: round_half_even_def)

lemma round_binary32_normal:
  assumes "2 powi e \<le> \<bar>r\<bar>" and "\<bar>r\<bar> < 2 powi (e + 1)" and "- 126 \<le> e"
  shows "round_binary32 r = of_int (round_half_even (r / 2 powi (e - 23))) * 2 powi (e - 23)"
proof -
  have "r \<noteq> 0" using assms(1) by (smt (verit) zero_less_power_int)
  then show ?thesis
    by (simp add: round_binary32_def ulp_exponent_eq [OF assms])
qed

lemma round_binary32_exact:
  assumes "r = of_int n * 2 powi e" and "\<bar>n\<bar> < 2 ^ 24" and "- 149 \<le> e"
  shows "round_binary32 r = r"
proof (cases "r = 0")
  case True
  then show ?thesis by (simp add: round_binary32_def)
next
  case False
  define E where "E = ulp_exponent r"
  have pos: "0 < \<bar>r\<bar>" using False by simp
  have "\<bar>r\<bar> = of_int \<bar>n\<bar> * 2 powi e"
    by (simp add: assms(1) abs_mult)
  also have "\<dots> < 2 ^ 24 * 2 powi e"
  proof -
    have "real_of_int \<bar>n\<bar> < 2 ^ 24"
    proof -
      have "real_of_int \<bar>n\<bar> < real_of_int (2 ^ 24)"
        using assms(2) by (simp only: of_int_less_iff)
      then show ?thesis by simp
    qed
    then show ?thesis by (simp add: mult_strict_right_mono)
  qed
  also have "\<dots> = 2 powi (e + 24)"
    by (simp add: power_int_add)
  finally have "\<bar>r\<bar> < 2 powr real_of_int (e + 24)"
    by (simp only: powr_powi)
  then have "log 2 \<bar>r\<bar> < real_of_int (e + 24)"
    using pos by (simp add: log_less_iff)
  then have "\<lfloor>log 2 \<bar>r\<bar>\<rfloor> < e + 24"
    by (simp add: floor_less_iff)
  then have le: "E \<le> e"
    using assms(3) by (simp add: E_def ulp_exponent_def)
  have "r / 2 powi E = of_int n * 2 powi (e - E)"
    by (simp add: assms(1) power_int_diff)
  also have "\<dots> = of_int (n * 2 ^ nat (e - E))"
    using le by (simp add: power_int_def)
  finally have q: "r / 2 powi E = of_int (n * 2 ^ nat (e - E))" .
  have "round_binary32 r = of_int (round_half_even (r / 2 powi E)) * 2 powi E"
    using False by (simp add: round_binary32_def E_def)
  also have "\<dots> = (r / 2 powi E) * 2 powi E"
    unfolding q round_half_even_int ..
  also have "\<dots> = r" by simp
  finally show ?thesis .
qed

lemma fl_exact:
  assumes "r = of_int n * 2 powi e" and "\<bar>n\<bar> < 2 ^ 24" and "- 149 \<le> e" and "e \<le> 104"
  shows "fl r = Float r"
proof -
  have "\<bar>r\<bar> = of_int \<bar>n\<bar> * 2 powi e"
    by (simp add: assms(1) abs_mult)
  also have "\<dots> < 2 ^ 24 * 2 powi e"
  proof -
    have "real_of_int \<bar>n\<bar> < 2 ^ 24"
    proof -
      have "real_of_int \<bar>n\<bar> < real_of_int (2 ^ 24)"
        using assms(2) by (simp only: of_int_less_iff)
      then show ?thesis by simp
    qed
    then show ?thesis by (simp add: mult_strict_right_mono)
  qed
  also have "\<dots> \<le> 2 ^ 24 * 2 powi 104"
  proof -
    have "(2::real) powi e \<le> 2 powi 104"
      using assms(4) by (intro power_int_increasing) simp_all
    then show ?thesis by (simp only: mult_le_cancel_left_pos zero_less_power zero_less_numeral)
  qed
  also have "\<dots> = 2 ^ 128" by simp
  finally have "\<bar>r\<bar> < 2 ^ 128" .
  then show ?thesis
    unfolding fl_def round_binary32_exact [OF assms(1-3)] by (simp add: Let_def) linarith
qed



lemma fl_Ints:
  assumes "r \<in> \<int>" and "\<bar>r\<bar> < 2 ^ 24"
  shows "fl r = Float r"
proof -
  from assms(1) obtain n where n: "r = of_int n" by (auto elim: Ints_cases)
  have "real_of_int \<bar>n\<bar> < real_of_int (2 ^ 24)"
    using assms(2) unfolding n by simp
  then have "\<bar>n\<bar> < 2 ^ 24" by (simp only: of_int_less_iff)
  then show ?thesis
    using fl_exact [of r n 0] by (simp add: n)
qed

lemma float_of_int_exact:
  assumes "\<bar>i\<bar> < 2 ^ 24"
  shows "float_of_int i = Float (of_int i)"
  using fl_exact [of "of_int i" i 0] assms by (simp add: float_of_int_def)

lemma float_of_nat_exact:
  assumes "n < 2 ^ 24"
  shows "float_of_nat n = Float (real n)"
  using fl_exact [of "real n" "int n" 0] assms by (simp add: float_of_nat_def)

lemma fle_Float [simp]: "fle (Float a) (Float b) \<longleftrightarrow> a \<le> b"
  by (simp add: fle_def)

lemma fge_Float [simp]: "fge (Float a) (Float b) \<longleftrightarrow> b \<le> a"
  by (simp add: fge_def)

lemma fadd_Float:
  "fadd (Float a) (Float b) = (if a + b = 0 then Float 0 else fl (a + b))"
  by (simp add: fadd_def)

lemma fsub_Float:
  "fsub (Float a) (Float b) = (if a - b = 0 then Float 0 else fl (a - b))"
  by (simp add: fsub_def fneg_def fadd_def)

lemma fmul_Float:
  "fmul (Float a) (Float b) =
     (if a * b = 0 then (if (a < 0) \<noteq> (b < 0) then NegZero else Float 0) else fl (a * b))"
  by (simp add: fmul_def is_inf_def sign_bit_def)

lemma fdiv_Float:
  "b \<noteq> 0 \<Longrightarrow>
   fdiv (Float a) (Float b) =
     (if a = 0 then (if b < 0 then NegZero else Float 0) else fl (a / b))"
  by (simp add: fdiv_def is_inf_def is_zero_def is_finite_def sign_bit_def)

subsection \<open>The loops of touch\<close>

text \<open>
  A loop that rewrites the element at each index below \<open>n\<close> maps the body over the
  first \<open>n\<close> elements and leaves the rest.
\<close>

lemma update_loop_buttons:
  "n \<le> length (buttons g) \<Longrightarrow>
   foldl (\<lambda>s i. s\<lparr>buttons := (buttons s)[i := f (buttons s ! i)]\<rparr>) g [0..<n]
     = g\<lparr>buttons := map f (take n (buttons g)) @ drop n (buttons g)\<rparr>"
proof (induction n)
  case 0
  then show ?case by simp
next
  case (Suc n)
  then have n: "n < length (buttons g)" by simp
  let ?bs = "buttons g"
  have at: "(map f (take n ?bs) @ drop n ?bs) ! n = ?bs ! n"
    using n by (simp add: nth_append)
  have "(map f (take n ?bs) @ drop n ?bs)[n := f (?bs ! n)]
          = map f (take (Suc n) ?bs) @ drop (Suc n) ?bs"
    using n by (simp add: list_update_append take_Suc_conv_app_nth
        Cons_nth_drop_Suc [symmetric])
  with Suc at n show ?case by simp
qed

lemma update_loop_joysticks:
  "n \<le> length (joysticks g) \<Longrightarrow>
   foldl (\<lambda>s i. s\<lparr>joysticks := (joysticks s)[i := f (joysticks s ! i)]\<rparr>) g [0..<n]
     = g\<lparr>joysticks := map f (take n (joysticks g)) @ drop n (joysticks g)\<rparr>"
proof (induction n)
  case 0
  then show ?case by simp
next
  case (Suc n)
  then have n: "n < length (joysticks g)" by simp
  let ?js = "joysticks g"
  have at: "(map f (take n ?js) @ drop n ?js) ! n = ?js ! n"
    using n by (simp add: nth_append)
  have "(map f (take n ?js) @ drop n ?js)[n := f (?js ! n)]
          = map f (take (Suc n) ?js) @ drop (Suc n) ?js"
    using n by (simp add: list_update_append take_Suc_conv_app_nth
        Cons_nth_drop_Suc [symmetric])
  with Suc at n show ?case by simp
qed

lemma Gamepad_touch_map:
  assumes "wf_Gamepad g" and "contactIndex < MAX_TOUCH_INPUTS"
  shows "Gamepad_touch MAX_TOUCH_INPUTS g x y touchEvent contactIndex
           = g\<lparr>buttons := map (touch_button x y touchEvent contactIndex) (buttons g),
               joysticks := map (touch_joystick x y touchEvent contactIndex) (joysticks g)\<rparr>"
proof -
  have b: "buttonCount g \<le> length (buttons g)" and j: "joystickCount g \<le> length (joysticks g)"
    using assms(1) by (simp_all add: wf_Gamepad_def)
  have nl: "\<not> MAX_TOUCH_INPUTS \<le> contactIndex" using assms(2) by simp
  show ?thesis
    using assms(1)
    by (simp add: Gamepad_touch_def nl Let_def update_loop_buttons [OF b]
        update_loop_joysticks wf_Gamepad_def)
qed

lemma wf_Gamepad_touch: "wf_Gamepad g \<Longrightarrow> wf_Gamepad (Gamepad_touch M g x y e c)"
  by (cases "c < M") (simp_all add: Gamepad_touch_map, simp_all add: wf_Gamepad_def Gamepad_touch_def)

lemma contact_below_max_valid:
  "(c::32 word) < m \<Longrightarrow> c \<noteq> INVALID_CONTACT_INDEX"
  unfolding INVALID_CONTACT_INDEX_def
  by (metis word_order.extremum_strict)

lemma touch_buttons_nth:
  assumes "wf_Gamepad g" "c < m" "i < buttonCount g"
  shows "buttons (Gamepad_touch m g x y e c) ! i = touch_button x y e c (buttons g ! i)"
  using assms by (simp add: Gamepad_touch_map wf_Gamepad_def)

lemma touch_joysticks_nth:
  assumes "wf_Gamepad g" "c < m" "i < joystickCount g"
  shows "joysticks (Gamepad_touch m g x y e c) ! i = touch_joystick x y e c (joysticks g ! i)"
  using assms by (simp add: Gamepad_touch_map wf_Gamepad_def)

lemma loop_buttons_frame:
  "buttonCount (foldl (\<lambda>s i. s\<lparr>buttons := F s i\<rparr>) g ns) = buttonCount g"
  "joystickCount (foldl (\<lambda>s i. s\<lparr>buttons := F s i\<rparr>) g ns) = joystickCount g"
  "texture (foldl (\<lambda>s i. s\<lparr>buttons := F s i\<rparr>) g ns) = texture g"
  by (induction ns arbitrary: g) simp_all

lemma loop_joysticks_frame:
  "buttonCount (foldl (\<lambda>s i. s\<lparr>joysticks := F s i\<rparr>) g ns) = buttonCount g"
  "joystickCount (foldl (\<lambda>s i. s\<lparr>joysticks := F s i\<rparr>) g ns) = joystickCount g"
  "texture (foldl (\<lambda>s i. s\<lparr>joysticks := F s i\<rparr>) g ns) = texture g"
  by (induction ns arbitrary: g) simp_all

lemma touch_counts:
  "buttonCount (Gamepad_touch m g x y e c) = buttonCount g
   \<and> joystickCount (Gamepad_touch m g x y e c) = joystickCount g
   \<and> texture (Gamepad_touch m g x y e c) = texture g"
  by (simp add: Gamepad_touch_def Let_def loop_buttons_frame loop_joysticks_frame)

subsection \<open>The example gamepad\<close>

text \<open>
  The example gamepad is what the constructor and three setter calls build, and the
  held state is what the two example touches reach from it.
\<close>

lemmas float_eval =
  float_of_int_exact float_of_nat_exact fsub_Float fadd_Float fmul_Float fdiv_Float fl_Ints

lemma fl_sixty_fourths:
  "fl (1 / 64) = Float (1 / 64)" "fl (3 / 64) = Float (3 / 64)"
  "fl (- (1 / 16)) = Float (- (1 / 16))"
  using fl_exact [of "1 / 64" 1 "- 6"] fl_exact [of "3 / 64" 3 "- 6"]
    fl_exact [of "- (1 / 16)" "- 1" "- 4"]
  by simp_all

lemma example_fresh_ctor:
  "Gamepad_ctor (Some ''gamepad.png'') (Some example_texture) 1 2
     (\<lambda>i. zero_joystick) (\<lambda>i. zero_button) = Inr example_fresh"
  by (simp add: Gamepad_ctor_def example_fresh_def numeral_2_eq_2)

lemma fl_quarters:
  "fl (1 / 4) = Float (1 / 4)" "fl (1 / 8) = Float (1 / 8)" "fl (3 / 8) = Float (3 / 8)"
  "fl (1 / 2) = Float (1 / 2)" "fl (3 / 4) = Float (3 / 4)" "fl 1 = Float 1"
  using fl_exact [of "1 / 4" 1 "- 2"] fl_exact [of "1 / 8" 1 "- 3"] fl_exact [of "3 / 8" 3 "- 3"]
    fl_exact [of "1 / 2" 1 "- 1"] fl_exact [of "3 / 4" 3 "- 2"] fl_exact [of 1 1 0]
  by simp_all

lemma example_texCoords:
  "texCoord example_texture
     \<lparr>rect_x = Float 0, rect_y = Float 0, rect_width = Float 64, rect_height = Float 64\<rparr>
     = \<lparr>uv_u1 = Float 0, uv_v1 = Float 1, uv_u2 = Float (1 / 4), uv_v2 = Float (1 / 2)\<rparr>"
  "texCoord example_texture
     \<lparr>rect_x = Float 64, rect_y = Float 0, rect_width = Float 32, rect_height = Float 32\<rparr>
     = \<lparr>uv_u1 = Float (1 / 4), uv_v1 = Float 1, uv_u2 = Float (3 / 8), uv_v2 = Float (3 / 4)\<rparr>"
  by (simp_all add: texCoord_def example_texture_def float_of_nat_exact fdiv_Float fadd_Float
      fsub_Float fl_quarters Let_def)

lemma example_pad_setup: "call_setters example_fresh example_setup = Inr example_pad"
  by (simp add: example_fresh_def example_setup_def example_pad_def setButton_def setJoystick_def
      setButton_at_def setJoystick_at_def example_texCoords Let_def)

lemma wf_example_pad: "wf_Gamepad example_pad"
  by (simp add: wf_Gamepad_def example_pad_def)

lemma wf_example_held: "wf_Gamepad example_held"
  by (simp add: wf_Gamepad_def example_held_def example_pad_def)

lemma example_first_touch:
  "Gamepad_touch 10 example_pad 10 10 TOUCH_PRESS 0
     = example_pad\<lparr>buttons :=
         [(buttons example_pad ! 0)\<lparr>b_contactIndex := 0, b_pressed := BUTTON_PRESSED\<rparr>,
          buttons example_pad ! 1]\<rparr>"
  by (simp add: Gamepad_touch_map wf_example_pad)
    (simp add: example_pad_def touch_button_def touch_joystick_def joystick_press_def
      joystick_move_def Button_ctor_def Joystick_ctor_def zero_button_def zero_joystick_def
      zero_Rect_def INVALID_CONTACT_INDEX_def float_eval Let_def)

lemma example_held_reached: "touches 10 example_pad example_touches = example_held"
proof -
  have wf: "wf_Gamepad (example_pad\<lparr>buttons :=
         [(buttons example_pad ! 0)\<lparr>b_contactIndex := 0, b_pressed := BUTTON_PRESSED\<rparr>,
          buttons example_pad ! 1]\<rparr>)"
    by (simp add: wf_Gamepad_def example_pad_def)
  show ?thesis
    by (simp add: example_touches_def example_first_touch Gamepad_touch_map wf)
      (simp add: Gamepad_touch_map wf_Gamepad_def example_held_def example_pad_def
        touch_button_def touch_joystick_def joystick_press_def joystick_move_def Button_ctor_def Joystick_ctor_def zero_button_def
        zero_joystick_def zero_Rect_def INVALID_CONTACT_INDEX_def float_eval fl_sixty_fourths
        Vector2_set_def Vector2_scale_def fneg_def Let_def)
qed

subsection \<open>The gamepad at the edge\<close>

text \<open>
  The edge gamepad is what the constructor and two setter calls build. The integer
  \<open>2 ^ 24 + 1\<close> lies half way between two single precision numbers and converts to
  \<open>2 ^ 24\<close>.
\<close>

lemma edge_fresh_ctor:
  "Gamepad_ctor (Some ''gamepad.png'') (Some example_texture) 1 1
     (\<lambda>i. zero_joystick) (\<lambda>i. zero_button) = Inr edge_fresh"
  by (simp add: Gamepad_ctor_def edge_fresh_def)

lemma edge_pad_setup: "call_setters edge_fresh edge_setup = Inr edge_pad"
  by (simp add: edge_fresh_def edge_setup_def edge_pad_def setButton_def setJoystick_def
      setButton_at_def setJoystick_at_def Let_def)

lemma wf_edge_pad: "wf_Gamepad edge_pad"
  by (simp add: wf_Gamepad_def edge_pad_def)

lemma round_binary32_tie_2_24: "round_binary32 16777217 = 16777216"
proof -
  have "round_binary32 16777217
          = of_int (round_half_even (16777217 / 2 powi (24 - 23))) * 2 powi (24 - 23)"
    by (rule round_binary32_normal) simp_all
  also have "\<dots> = 16777216"
    by (simp add: round_half_even_def)
  finally show ?thesis .
qed

lemma fl_2_24: "fl 16777216 = Float 16777216"
  using fl_exact [of 16777216 1 24] by simp

lemma float_of_int_2_24_plus_1: "float_of_int 16777217 = Float 16777216"
  by (simp add: float_of_int_def fl_def round_binary32_tie_2_24)

subsection \<open>Joysticks with the radius 41 and the radius 5\<close>

text \<open>
  Neither \<open>1 / 41\<close> nor \<open>1 / 5\<close> is a single precision number. The reciprocal of 41
  rounds down and that of 5 rounds up, so 41 times the first is below 1 and the vector
  \<open>(3, 4)\<close> times the second is longer than 1.
\<close>

lemma round_binary32_41:
  "round_binary32 (1 / 41) = 3273603 / 134217728"
  "round_binary32 (134217723 / 134217728) = 16777215 / 16777216"
proof -
  have "round_binary32 (1 / 41)
          = of_int (round_half_even ((1 / 41) / 2 powi (- 6 - 23))) * 2 powi (- 6 - 23)"
    by (rule round_binary32_normal) simp_all
  also have "\<dots> = 3273603 / 134217728"
    by (simp add: round_half_even_def)
  finally show "round_binary32 (1 / 41) = 3273603 / 134217728" .
  have "round_binary32 (134217723 / 134217728)
          = of_int (round_half_even ((134217723 / 134217728) / 2 powi (- 1 - 23)))
              * 2 powi (- 1 - 23)"
    by (rule round_binary32_normal) simp_all
  also have "\<dots> = 16777215 / 16777216"
    by (simp add: round_half_even_def)
  finally show "round_binary32 (134217723 / 134217728) = 16777215 / 16777216" .
qed

lemma fl_41:
  "fl (1 / 41) = Float (3273603 / 134217728)"
  "fl (134217723 / 134217728) = Float (16777215 / 16777216)"
  by (simp_all only: fl_def round_binary32_41 Let_def) simp_all

lemma fresh_stick_ctor:
  "Gamepad_ctor (Some ''gamepad.png'') (Some example_texture) 1 0
     (\<lambda>i. zero_joystick) (\<lambda>i. zero_button) = Inr fresh_stick"
  by (simp add: Gamepad_ctor_def fresh_stick_def)

lemma pad_41_setup: "call_setters fresh_stick setup_41 = Inr pad_41"
  by (simp add: fresh_stick_def setup_41_def pad_41_def setJoystick_def setJoystick_at_def Let_def)

lemma wf_pad_41: "wf_Gamepad pad_41" "wf_Gamepad held_41"
  by (simp_all add: wf_Gamepad_def pad_41_def held_41_def fresh_stick_def)

lemma held_41_reached: "Gamepad_touch 10 pad_41 0 0 TOUCH_PRESS 0 = held_41"
  by (simp add: Gamepad_touch_map wf_pad_41)
    (simp add: pad_41_def held_41_def fresh_stick_def touch_joystick_def joystick_press_def
      joystick_move_def Joystick_ctor_def zero_joystick_def zero_Rect_def Vector2_zero_def
      Vector2_set_def Vector2_scale_def INVALID_CONTACT_INDEX_def fneg_def fmul_def fdiv_Float
      is_inf_def sign_bit_def fl_41 float_eval Let_def)

lemma round_binary32_5:
  "round_binary32 (1 / 5) = 13421773 / 67108864"
  "round_binary32 (40265319 / 67108864) = 5033165 / 8388608"
proof -
  have "round_binary32 (1 / 5)
          = of_int (round_half_even ((1 / 5) / 2 powi (- 3 - 23))) * 2 powi (- 3 - 23)"
    by (rule round_binary32_normal) simp_all
  also have "\<dots> = 13421773 / 67108864"
    by (simp add: round_half_even_def)
  finally show "round_binary32 (1 / 5) = 13421773 / 67108864" .
  have "round_binary32 (40265319 / 67108864)
          = of_int (round_half_even ((40265319 / 67108864) / 2 powi (- 1 - 23)))
              * 2 powi (- 1 - 23)"
    by (rule round_binary32_normal) simp_all
  also have "\<dots> = 5033165 / 8388608"
    by (simp add: round_half_even_def)
  finally show "round_binary32 (40265319 / 67108864) = 5033165 / 8388608" .
qed

lemma fl_5:
  "fl (1 / 5) = Float (13421773 / 67108864)"
  "fl (40265319 / 67108864) = Float (5033165 / 8388608)"
  by (simp_all only: fl_def round_binary32_5 Let_def) simp_all

lemma fl_5_exact: "fl (- (13421773 / 16777216)) = Float (- (13421773 / 16777216))"
  using fl_exact [of "- (13421773 / 16777216)" "- 13421773" "- 24"] by simp

lemma pad_5_setup: "call_setters fresh_stick setup_5 = Inr pad_5"
  by (simp add: fresh_stick_def setup_5_def pad_5_def setJoystick_def setJoystick_at_def Let_def)

lemma wf_pad_5: "wf_Gamepad pad_5"
  by (simp add: wf_Gamepad_def pad_5_def fresh_stick_def)

subsection \<open>Contact indices out of range\<close>

text \<open>
  Claim C10. For every touch event whose contact index is greater than or equal to
  \<open>MAX_TOUCH_INPUTS\<close>, \<open>Gamepad::touch\<close> returns at once and the whole gamepad
  state is unchanged, whatever the event type and the coordinates.
\<close>

theorem touch_ignores_large_contact:
  "MAX_TOUCH_INPUTS \<le> contactIndex \<Longrightarrow>
   Gamepad_touch MAX_TOUCH_INPUTS g x y touchEvent contactIndex = g"
  by (simp add: Gamepad_touch_def)

theorem touch_ignores_large_contact_witness:
  "(10::32 word) \<le> 12 \<and> Gamepad_touch 10 example_pad 10 10 TOUCH_PRESS 12 = example_pad"
  using touch_ignores_large_contact [of 10 12 example_pad 10 10 TOUCH_PRESS] by simp

subsection \<open>Pressing buttons\<close>

text \<open>
  Claim C1, as the code has it. For every \<open>TOUCH_PRESS\<close> at \<open>(x, y)\<close> with a contact
  index \<open>c\<close> below \<open>MAX_TOUCH_INPUTS\<close>, \<open>Gamepad::touch\<close> sets every button that has
  no bound contact and whose region contains \<open>(x, y)\<close> to \<open>BUTTON_PRESSED\<close> with the
  bound contact \<open>c\<close>, so that \<open>getButtonState\<close> on its index then returns
  \<open>BUTTON_PRESSED\<close>; a button that is bound already or whose region does not contain
  \<open>(x, y)\<close> is unchanged. The region contains the point by the four comparisons that
  the code makes in single precision: \<open>x\<close> and \<open>y\<close> are converted to \<open>float\<close>, and
  \<open>region.x + region.width\<close> and \<open>region.y + region.height\<close> are rounded sums. When
  the four fields of the region are whole numbers below \<open>2 ^ 23\<close> in absolute value and
  \<open>x\<close> and \<open>y\<close> are below \<open>2 ^ 24\<close> in absolute value, nothing is rounded and the four
  comparisons are the inclusive bounds of the claim,
  \<open>region.x \<le> x \<le> region.x + region.width\<close> and
  \<open>region.y \<le> y \<le> region.y + region.height\<close>.
\<close>

theorem touch_press_buttons:
  assumes "wf_Gamepad g" and "contactIndex < MAX_TOUCH_INPUTS" and "i < buttonCount g"
  shows
    "(b_contactIndex (buttons g ! i) = INVALID_CONTACT_INDEX
        \<and> fge (float_of_int x) (rect_x (b_region (buttons g ! i)))
        \<and> fle (float_of_int x)
              (fadd (rect_x (b_region (buttons g ! i))) (rect_width (b_region (buttons g ! i))))
        \<and> fge (float_of_int y) (rect_y (b_region (buttons g ! i)))
        \<and> fle (float_of_int y)
              (fadd (rect_y (b_region (buttons g ! i))) (rect_height (b_region (buttons g ! i))))
      \<longrightarrow> buttons (Gamepad_touch MAX_TOUCH_INPUTS g x y TOUCH_PRESS contactIndex) ! i
            = (buttons g ! i)\<lparr>b_contactIndex := contactIndex, b_pressed := BUTTON_PRESSED\<rparr>
          \<and> getButtonState (Gamepad_touch MAX_TOUCH_INPUTS g x y TOUCH_PRESS contactIndex) i
            = Inr BUTTON_PRESSED)
     \<and> (b_contactIndex (buttons g ! i) \<noteq> INVALID_CONTACT_INDEX
        \<or> \<not> (fge (float_of_int x) (rect_x (b_region (buttons g ! i)))
        \<and> fle (float_of_int x)
              (fadd (rect_x (b_region (buttons g ! i))) (rect_width (b_region (buttons g ! i))))
        \<and> fge (float_of_int y) (rect_y (b_region (buttons g ! i)))
        \<and> fle (float_of_int y)
              (fadd (rect_y (b_region (buttons g ! i))) (rect_height (b_region (buttons g ! i)))))
      \<longrightarrow> buttons (Gamepad_touch MAX_TOUCH_INPUTS g x y TOUCH_PRESS contactIndex) ! i
            = buttons g ! i)
     \<and> (b_region (buttons g ! i)
          = \<lparr>rect_x = Float (of_int rx), rect_y = Float (of_int ry),
             rect_width = Float (of_int rw), rect_height = Float (of_int rh)\<rparr>
        \<and> \<bar>rx\<bar> < 2 ^ 23 \<and> \<bar>ry\<bar> < 2 ^ 23 \<and> \<bar>rw\<bar> < 2 ^ 23 \<and> \<bar>rh\<bar> < 2 ^ 23
        \<and> \<bar>x\<bar> < 2 ^ 24 \<and> \<bar>y\<bar> < 2 ^ 24
      \<longrightarrow> (fge (float_of_int x) (rect_x (b_region (buttons g ! i)))
        \<and> fle (float_of_int x)
              (fadd (rect_x (b_region (buttons g ! i))) (rect_width (b_region (buttons g ! i))))
        \<and> fge (float_of_int y) (rect_y (b_region (buttons g ! i)))
        \<and> fle (float_of_int y)
              (fadd (rect_y (b_region (buttons g ! i))) (rect_height (b_region (buttons g ! i)))))
          = region_contains (b_region (buttons g ! i)) x y)"
proof -
  have nth: "buttons (Gamepad_touch MAX_TOUCH_INPUTS g x y TOUCH_PRESS contactIndex) ! i
               = touch_button x y TOUCH_PRESS contactIndex (buttons g ! i)"
    using assms by (rule touch_buttons_nth)
  have cnt: "i < buttonCount (Gamepad_touch MAX_TOUCH_INPUTS g x y TOUCH_PRESS contactIndex)"
    using assms(3) by (simp add: touch_counts)
  have press: "b_contactIndex (buttons g ! i) = INVALID_CONTACT_INDEX
        \<and> fge (float_of_int x) (rect_x (b_region (buttons g ! i)))
        \<and> fle (float_of_int x)
              (fadd (rect_x (b_region (buttons g ! i))) (rect_width (b_region (buttons g ! i))))
        \<and> fge (float_of_int y) (rect_y (b_region (buttons g ! i)))
        \<and> fle (float_of_int y)
              (fadd (rect_y (b_region (buttons g ! i))) (rect_height (b_region (buttons g ! i))))
      \<longrightarrow> buttons (Gamepad_touch MAX_TOUCH_INPUTS g x y TOUCH_PRESS contactIndex) ! i
            = (buttons g ! i)\<lparr>b_contactIndex := contactIndex, b_pressed := BUTTON_PRESSED\<rparr>
          \<and> getButtonState (Gamepad_touch MAX_TOUCH_INPUTS g x y TOUCH_PRESS contactIndex) i
            = Inr BUTTON_PRESSED"
    unfolding getButtonState_def nth using cnt by (simp add: touch_button_def)
  have keep: "b_contactIndex (buttons g ! i) \<noteq> INVALID_CONTACT_INDEX
        \<or> \<not> (fge (float_of_int x) (rect_x (b_region (buttons g ! i)))
        \<and> fle (float_of_int x)
              (fadd (rect_x (b_region (buttons g ! i))) (rect_width (b_region (buttons g ! i))))
        \<and> fge (float_of_int y) (rect_y (b_region (buttons g ! i)))
        \<and> fle (float_of_int y)
              (fadd (rect_y (b_region (buttons g ! i))) (rect_height (b_region (buttons g ! i)))))
      \<longrightarrow> buttons (Gamepad_touch MAX_TOUCH_INPUTS g x y TOUCH_PRESS contactIndex) ! i
            = buttons g ! i"
    unfolding nth by (auto simp add: touch_button_def)
  have exact: "(fge (float_of_int x) (rect_x (b_region (buttons g ! i)))
        \<and> fle (float_of_int x)
              (fadd (rect_x (b_region (buttons g ! i))) (rect_width (b_region (buttons g ! i))))
        \<and> fge (float_of_int y) (rect_y (b_region (buttons g ! i)))
        \<and> fle (float_of_int y)
              (fadd (rect_y (b_region (buttons g ! i))) (rect_height (b_region (buttons g ! i)))))
          = region_contains (b_region (buttons g ! i)) x y"
    if r: "b_region (buttons g ! i)
          = \<lparr>rect_x = Float (of_int rx), rect_y = Float (of_int ry),
             rect_width = Float (of_int rw), rect_height = Float (of_int rh)\<rparr>"
      and b: "\<bar>rx\<bar> < 2 ^ 23" "\<bar>ry\<bar> < 2 ^ 23" "\<bar>rw\<bar> < 2 ^ 23" "\<bar>rh\<bar> < 2 ^ 23"
        "\<bar>x\<bar> < 2 ^ 24" "\<bar>y\<bar> < 2 ^ 24"
  proof -
    have sx: "fadd (Float (of_int rx)) (Float (of_int rw)) = Float (of_int (rx + rw))"
      using b(1,3) fl_exact [of "of_int (rx + rw)" "rx + rw" 0] by (simp add: fadd_Float)
    have sy: "fadd (Float (of_int ry)) (Float (of_int rh)) = Float (of_int (ry + rh))"
      using b(2,4) fl_exact [of "of_int (ry + rh)" "ry + rh" 0] by (simp add: fadd_Float)
    show ?thesis
      using b(5,6) by (simp add: r sx sy float_of_int_exact region_contains_def)
  qed
  from press keep exact show ?thesis by blast
qed

theorem touch_press_buttons_witness:
  "wf_Gamepad example_pad \<and> (0::32 word) < 10 \<and> (0::nat) < buttonCount example_pad
   \<and> getButtonState (Gamepad_touch 10 example_pad 10 10 TOUCH_PRESS 0) 0 = Inr BUTTON_PRESSED
   \<and> buttons (Gamepad_touch 10 example_pad 10 10 TOUCH_PRESS 0) ! 1 = buttons example_pad ! 1
   \<and> region_contains (b_region (buttons example_pad ! 0)) 10 10"
proof -
  have h1: "wf_Gamepad example_pad" by (rule wf_example_pad)
  have h2: "(0::32 word) < 10" by simp
  have h3: "(0::nat) < buttonCount example_pad" "(1::nat) < buttonCount example_pad"
    by (simp_all add: example_pad_def)
  note t0 = touch_press_buttons [OF h1 h2 h3(1), of 10 10 0 0 64 64]
  note t1 = touch_press_buttons [OF h1 h2 h3(2), of 10 10]
  have hit: "b_contactIndex (buttons example_pad ! 0) = INVALID_CONTACT_INDEX
      \<and> fge (float_of_int 10) (rect_x (b_region (buttons example_pad ! 0)))
      \<and> fle (float_of_int 10)
            (fadd (rect_x (b_region (buttons example_pad ! 0)))
               (rect_width (b_region (buttons example_pad ! 0))))
      \<and> fge (float_of_int 10) (rect_y (b_region (buttons example_pad ! 0)))
      \<and> fle (float_of_int 10)
            (fadd (rect_y (b_region (buttons example_pad ! 0)))
               (rect_height (b_region (buttons example_pad ! 0))))"
    by (simp add: example_pad_def Button_ctor_def float_eval)
  have miss: "\<not> fge (float_of_int 10) (rect_x (b_region (buttons example_pad ! 1)))"
    by (simp add: example_pad_def float_eval)
  have reg: "b_region (buttons example_pad ! 0)
      = \<lparr>rect_x = Float (of_int 0), rect_y = Float (of_int 0),
         rect_width = Float (of_int 64), rect_height = Float (of_int 64)\<rparr>"
    by (simp add: example_pad_def)
  from t0 hit reg have "getButtonState (Gamepad_touch 10 example_pad 10 10 TOUCH_PRESS 0) 0
      = Inr BUTTON_PRESSED \<and> region_contains (b_region (buttons example_pad ! 0)) 10 10"
    by simp
  moreover from t1 miss have "buttons (Gamepad_touch 10 example_pad 10 10 TOUCH_PRESS 0) ! 1
      = buttons example_pad ! 1"
    by blast
  ultimately show ?thesis using h1 h2 h3 by blast
qed

text \<open>
  Claim C1, as stated, reads the bounds in exact arithmetic. The button of the edge
  gamepad has the region of the single point \<open>(2 ^ 24, 0)\<close>. The point
  \<open>(2 ^ 24 + 1, 0)\<close> is outside of it, and a press there presses the button, because
  \<open>2 ^ 24 + 1\<close> converts to the \<open>float\<close> \<open>2 ^ 24\<close>.
\<close>

theorem touch_press_buttons_counterexample:
  "b_contactIndex (buttons edge_pad ! 0) = INVALID_CONTACT_INDEX
   \<and> \<not> region_contains (b_region (buttons edge_pad ! 0)) 16777217 0
   \<and> b_pressed (buttons edge_pad ! 0) = BUTTON_RELEASED
   \<and> b_pressed (buttons (Gamepad_touch 10 edge_pad 16777217 0 TOUCH_PRESS 0) ! 0) = BUTTON_PRESSED"
proof -
  have "buttons (Gamepad_touch 10 edge_pad 16777217 0 TOUCH_PRESS 0) ! 0
          = touch_button 16777217 0 TOUCH_PRESS 0 (buttons edge_pad ! 0)"
    by (rule touch_buttons_nth [OF wf_edge_pad]) (simp_all add: edge_pad_def)
  then show ?thesis
    by (simp add: edge_pad_def Button_ctor_def region_contains_def touch_button_def
        float_of_int_2_24_plus_1 fl_2_24 float_eval)
qed

subsection \<open>Releasing\<close>

text \<open>
  Claim C5. On a \<open>TOUCH_RELEASE\<close> with a contact index \<open>c\<close> below
  \<open>MAX_TOUCH_INPUTS\<close>, every button bound to \<open>c\<close> becomes \<open>BUTTON_RELEASED\<close> with no
  bound contact, and every joystick bound to \<open>c\<close> becomes inactive with zero
  displacement and zero direction. Every button and joystick bound to anything else is
  unchanged, and so are all regions, texture coordinates, the counts and the texture:
  the record updates below touch no other field.
\<close>

theorem touch_release_frame:
  assumes "wf_Gamepad g" and "contactIndex < MAX_TOUCH_INPUTS"
  shows
    "(\<forall>i < buttonCount g.
        buttons (Gamepad_touch MAX_TOUCH_INPUTS g x y TOUCH_RELEASE contactIndex) ! i
          = (if b_contactIndex (buttons g ! i) = contactIndex
             then (buttons g ! i)\<lparr>b_contactIndex := INVALID_CONTACT_INDEX,
                                  b_pressed := BUTTON_RELEASED\<rparr>
             else buttons g ! i))
     \<and> (\<forall>i < joystickCount g.
        joysticks (Gamepad_touch MAX_TOUCH_INPUTS g x y TOUCH_RELEASE contactIndex) ! i
          = (if j_contactIndex (joysticks g ! i) = contactIndex
             then (joysticks g ! i)\<lparr>j_contactIndex := INVALID_CONTACT_INDEX,
                                    j_displacement := Vector2_zero,
                                    j_direction := Vector2_zero\<rparr>
             else joysticks g ! i))
     \<and> buttonCount (Gamepad_touch MAX_TOUCH_INPUTS g x y TOUCH_RELEASE contactIndex) = buttonCount g
     \<and> joystickCount (Gamepad_touch MAX_TOUCH_INPUTS g x y TOUCH_RELEASE contactIndex) = joystickCount g
     \<and> texture (Gamepad_touch MAX_TOUCH_INPUTS g x y TOUCH_RELEASE contactIndex) = texture g
     \<and> wf_Gamepad (Gamepad_touch MAX_TOUCH_INPUTS g x y TOUCH_RELEASE contactIndex)"
proof -
  have b: "\<forall>i < buttonCount g.
        buttons (Gamepad_touch MAX_TOUCH_INPUTS g x y TOUCH_RELEASE contactIndex) ! i
          = (if b_contactIndex (buttons g ! i) = contactIndex
             then (buttons g ! i)\<lparr>b_contactIndex := INVALID_CONTACT_INDEX,
                                  b_pressed := BUTTON_RELEASED\<rparr>
             else buttons g ! i)"
    using assms
    by (simp add: touch_buttons_nth touch_button_def INVALID_CONTACT_INDEX_def)
  have j: "\<forall>i < joystickCount g.
        joysticks (Gamepad_touch MAX_TOUCH_INPUTS g x y TOUCH_RELEASE contactIndex) ! i
          = (if j_contactIndex (joysticks g ! i) = contactIndex
             then (joysticks g ! i)\<lparr>j_contactIndex := INVALID_CONTACT_INDEX,
                                    j_displacement := Vector2_zero,
                                    j_direction := Vector2_zero\<rparr>
             else joysticks g ! i)"
    using assms
    by (simp add: touch_joysticks_nth touch_joystick_def joystick_release_def
        INVALID_CONTACT_INDEX_def Vector2_zero_def Vector2_set_def)
  from b j show ?thesis
    using assms(1) by (simp add: touch_counts wf_Gamepad_touch)
qed

theorem touch_release_frame_witness:
  "wf_Gamepad example_held \<and> (0::32 word) < 10 \<and> (1::32 word) < 10
   \<and> buttons (Gamepad_touch 10 example_held 0 0 TOUCH_RELEASE 0) ! 0
       = (buttons example_held ! 0)\<lparr>b_contactIndex := INVALID_CONTACT_INDEX,
                                     b_pressed := BUTTON_RELEASED\<rparr>
   \<and> buttons (Gamepad_touch 10 example_held 0 0 TOUCH_RELEASE 0) ! 1 = buttons example_held ! 1
   \<and> joysticks (Gamepad_touch 10 example_held 0 0 TOUCH_RELEASE 0) ! 0 = joysticks example_held ! 0
   \<and> joysticks (Gamepad_touch 10 example_held 0 0 TOUCH_RELEASE 1) ! 0
       = (joysticks example_held ! 0)\<lparr>j_contactIndex := INVALID_CONTACT_INDEX,
                                       j_displacement := Vector2_zero,
                                       j_direction := Vector2_zero\<rparr>
   \<and> buttons (Gamepad_touch 10 example_held 0 0 TOUCH_RELEASE 1) ! 0 = buttons example_held ! 0"
proof -
  have h1: "wf_Gamepad example_held" by (rule wf_example_held)
  have h2: "(0::32 word) < 10" and h3: "(1::32 word) < 10" by simp_all
  show ?thesis
    using h1 h2 h3 touch_release_frame [OF h1 h2, of 0 0] touch_release_frame [OF h1 h3, of 0 0]
    by (simp add: example_held_def example_pad_def Button_ctor_def zero_button_def)
qed

subsection \<open>Pressing a joystick\<close>

lemma joystick_move_contact: "j_contactIndex (joystick_move x y c j) = j_contactIndex j"
  by (simp add: joystick_move_def Let_def)

lemma joystick_move_displacement:
  "j_contactIndex j = c \<Longrightarrow>
   j_displacement (joystick_move x y c j)
     = \<lparr>vec_x = fsub (float_of_int x) (rect_x (j_regionInner j)),
        vec_y = fsub (float_of_int y) (rect_y (j_regionInner j))\<rparr>"
  by (simp add: joystick_move_def Let_def Vector2_set_def)

lemma round_binary32_edge:
  "round_binary32 (33554431 / 2) = 16777216"
  "round_binary32 (33554433 / 2) = 16777216"
proof -
  have "round_binary32 (33554431 / 2)
          = of_int (round_half_even ((33554431 / 2) / 2 powi (23 - 23))) * 2 powi (23 - 23)"
    by (rule round_binary32_normal) simp_all
  also have "\<dots> = 16777216"
    by (simp add: round_half_even_def)
  finally show "round_binary32 (33554431 / 2) = 16777216" .
  have "round_binary32 (33554433 / 2)
          = of_int (round_half_even ((33554433 / 2) / 2 powi (24 - 23))) * 2 powi (24 - 23)"
    by (rule round_binary32_normal) simp_all
  also have "\<dots> = 16777216"
    by (simp add: round_half_even_def)
  finally show "round_binary32 (33554433 / 2) = 16777216" .
qed

lemma fl_edge:
  "fl (33554431 / 2) = Float 16777216" "fl (33554433 / 2) = Float 16777216"
  "fl (- (1 / 2)) = Float (- (1 / 2))"
  using fl_exact [of "- (1 / 2)" "- 1" "- 1"]
  by (simp_all add: fl_def round_binary32_edge)

lemma edge_press_binds:
  "joystick_press 16777217 0 0 (joysticks edge_pad ! 0)
     = (joysticks edge_pad ! 0)\<lparr>j_contactIndex := 0,
          j_displacement := Vector2_zero, j_direction := Vector2_zero\<rparr>"
  by (simp add: edge_pad_def joystick_press_def Joystick_ctor_def Let_def Vector2_set_def
      Vector2_zero_def float_of_int_2_24_plus_1 float_eval fl_edge fl_quarters)

text \<open>
  Claim C6, as the code has it. A \<open>TOUCH_PRESS\<close> at \<open>(x, y)\<close> with a contact index
  \<open>c\<close> below \<open>MAX_TOUCH_INPUTS\<close> binds a joystick that has no bound contact if and
  only if the four comparisons of the code hold in single precision: \<open>x\<close> converted to
  \<open>float\<close> is at least the rounded difference \<open>bx - r\<close> and at most the rounded sum
  \<open>bx + r\<close>, and likewise \<open>y\<close> with \<open>by\<close>, where \<open>(bx, by)\<close> is the position of the inner
  region and \<open>r\<close> the radius. When \<open>bx\<close>, \<open>by\<close> and \<open>r\<close> are whole numbers below
  \<open>2 ^ 23\<close> in absolute value and \<open>x\<close> and \<open>y\<close> are below \<open>2 ^ 24\<close> in absolute value,
  nothing is rounded, and the joystick is bound if and only if \<open>(x, y)\<close> lies in the box
  \<open>[bx - r, bx + r] \<times> [by - r, by + r]\<close>, bounds included.
\<close>

theorem touch_press_joystick_box:
  assumes "wf_Gamepad g" and "contactIndex < MAX_TOUCH_INPUTS" and "i < joystickCount g"
    and "j_contactIndex (joysticks g ! i) = INVALID_CONTACT_INDEX"
  shows
    "(j_contactIndex (joysticks (Gamepad_touch MAX_TOUCH_INPUTS g x y TOUCH_PRESS contactIndex) ! i)
        = contactIndex
      \<longleftrightarrow>
        fge (float_of_int x)
          (fsub (rect_x (j_regionInner (joysticks g ! i))) (j_radius (joysticks g ! i)))
      \<and> fle (float_of_int x)
          (fadd (rect_x (j_regionInner (joysticks g ! i))) (j_radius (joysticks g ! i)))
      \<and> fge (float_of_int y)
          (fsub (rect_y (j_regionInner (joysticks g ! i))) (j_radius (joysticks g ! i)))
      \<and> fle (float_of_int y)
          (fadd (rect_y (j_regionInner (joysticks g ! i))) (j_radius (joysticks g ! i))))
     \<and> (rect_x (j_regionInner (joysticks g ! i)) = Float (of_int bx)
        \<and> rect_y (j_regionInner (joysticks g ! i)) = Float (of_int by)
        \<and> j_radius (joysticks g ! i) = Float (of_int r)
        \<and> \<bar>bx\<bar> < 2 ^ 23 \<and> \<bar>by\<bar> < 2 ^ 23 \<and> \<bar>r\<bar> < 2 ^ 23 \<and> \<bar>x\<bar> < 2 ^ 24 \<and> \<bar>y\<bar> < 2 ^ 24
      \<longrightarrow> (j_contactIndex
            (joysticks (Gamepad_touch MAX_TOUCH_INPUTS g x y TOUCH_PRESS contactIndex) ! i)
            = contactIndex
          \<longleftrightarrow> box_contains (joysticks g ! i) x y))"
proof -
  have ne: "contactIndex \<noteq> INVALID_CONTACT_INDEX"
    using assms(2) by (rule contact_below_max_valid)
  have nth: "joysticks (Gamepad_touch MAX_TOUCH_INPUTS g x y TOUCH_PRESS contactIndex) ! i
               = touch_joystick x y TOUCH_PRESS contactIndex (joysticks g ! i)"
    using assms(1-3) by (rule touch_joysticks_nth)
  have code: "j_contactIndex
         (joysticks (Gamepad_touch MAX_TOUCH_INPUTS g x y TOUCH_PRESS contactIndex) ! i)
        = contactIndex
      \<longleftrightarrow>
        fge (float_of_int x)
          (fsub (rect_x (j_regionInner (joysticks g ! i))) (j_radius (joysticks g ! i)))
      \<and> fle (float_of_int x)
          (fadd (rect_x (j_regionInner (joysticks g ! i))) (j_radius (joysticks g ! i)))
      \<and> fge (float_of_int y)
          (fsub (rect_y (j_regionInner (joysticks g ! i))) (j_radius (joysticks g ! i)))
      \<and> fle (float_of_int y)
          (fadd (rect_y (j_regionInner (joysticks g ! i))) (j_radius (joysticks g ! i)))"
    unfolding nth using assms(4) ne
    by (auto simp add: touch_joystick_def joystick_move_contact joystick_press_def Let_def)
  have exact: "j_contactIndex
         (joysticks (Gamepad_touch MAX_TOUCH_INPUTS g x y TOUCH_PRESS contactIndex) ! i)
        = contactIndex
      \<longleftrightarrow> box_contains (joysticks g ! i) x y"
    if v: "rect_x (j_regionInner (joysticks g ! i)) = Float (of_int bx)"
      "rect_y (j_regionInner (joysticks g ! i)) = Float (of_int by)"
      "j_radius (joysticks g ! i) = Float (of_int r)"
      and b: "\<bar>bx\<bar> < 2 ^ 23" "\<bar>by\<bar> < 2 ^ 23" "\<bar>r\<bar> < 2 ^ 23" "\<bar>x\<bar> < 2 ^ 24" "\<bar>y\<bar> < 2 ^ 24"
  proof -
    have s: "fsub (Float (of_int bx)) (Float (of_int r)) = Float (of_int (bx - r))"
      "fadd (Float (of_int bx)) (Float (of_int r)) = Float (of_int (bx + r))"
      "fsub (Float (of_int by)) (Float (of_int r)) = Float (of_int (by - r))"
      "fadd (Float (of_int by)) (Float (of_int r)) = Float (of_int (by + r))"
      using b(1-3) fl_exact [of "of_int (bx - r)" "bx - r" 0]
        fl_exact [of "of_int (bx + r)" "bx + r" 0]
        fl_exact [of "of_int (by - r)" "by - r" 0]
        fl_exact [of "of_int (by + r)" "by + r" 0]
      by (simp_all add: fadd_Float fsub_Float)
    show ?thesis
      unfolding code using b(4,5)
      by (simp add: v s float_of_int_exact box_contains_def)
  qed
  from code exact show ?thesis by blast
qed

theorem touch_press_joystick_box_witness:
  "wf_Gamepad example_pad \<and> (1::32 word) < 10 \<and> (0::nat) < joystickCount example_pad
   \<and> j_contactIndex (joysticks example_pad ! 0) = INVALID_CONTACT_INDEX
   \<and> box_contains (joysticks example_pad ! 0) 203 204
   \<and> j_contactIndex (joysticks (Gamepad_touch 10 example_pad 203 204 TOUCH_PRESS 1) ! 0) = 1
   \<and> \<not> box_contains (joysticks example_pad ! 0) 203 265
   \<and> j_contactIndex (joysticks (Gamepad_touch 10 example_pad 203 265 TOUCH_PRESS 1) ! 0) \<noteq> 1"
proof -
  have h1: "wf_Gamepad example_pad" by (rule wf_example_pad)
  have h2: "(1::32 word) < 10" by simp
  have h3: "(0::nat) < joystickCount example_pad" by (simp add: example_pad_def)
  have h4: "j_contactIndex (joysticks example_pad ! 0) = INVALID_CONTACT_INDEX"
    by (simp add: example_pad_def Joystick_ctor_def)
  have v: "rect_x (j_regionInner (joysticks example_pad ! 0)) = Float (of_int 200)"
    "rect_y (j_regionInner (joysticks example_pad ! 0)) = Float (of_int 200)"
    "j_radius (joysticks example_pad ! 0) = Float (of_int 64)"
    by (simp_all add: example_pad_def)
  have b: "box_contains (joysticks example_pad ! 0) 203 204"
    "\<not> box_contains (joysticks example_pad ! 0) 203 265"
    by (simp_all add: box_contains_def example_pad_def)
  note t1 = touch_press_joystick_box [OF h1 h2 h3 h4, of 203 204 200 200 64, THEN conjunct2]
  note t2 = touch_press_joystick_box [OF h1 h2 h3 h4, of 203 265 200 200 64, THEN conjunct2]
  from t1 v b(1)
  have "j_contactIndex (joysticks (Gamepad_touch 10 example_pad 203 204 TOUCH_PRESS 1) ! 0) = 1"
    by simp
  moreover from t2 v b(2)
  have "j_contactIndex (joysticks (Gamepad_touch 10 example_pad 203 265 TOUCH_PRESS 1) ! 0) \<noteq> 1"
    by simp
  ultimately show ?thesis using h1 h2 h3 h4 b by blast
qed

text \<open>
  Claim C6, as stated, reads the box in exact arithmetic. The joystick of the edge
  gamepad is at \<open>(2 ^ 24, 0)\<close> with the radius one half. The point \<open>(2 ^ 24 + 1, 0)\<close> is
  outside of the box \<open>[2 ^ 24 - 1 / 2, 2 ^ 24 + 1 / 2] \<times> [- 1 / 2, 1 / 2]\<close>, and a press
  there binds the joystick: \<open>2 ^ 24 + 1\<close> converts to \<open>2 ^ 24\<close>, and both
  \<open>2 ^ 24 - 1 / 2\<close> and \<open>2 ^ 24 + 1 / 2\<close> round to \<open>2 ^ 24\<close>.
\<close>

theorem touch_press_joystick_box_counterexample:
  "j_contactIndex (joysticks edge_pad ! 0) = INVALID_CONTACT_INDEX
   \<and> \<not> box_contains (joysticks edge_pad ! 0) 16777217 0
   \<and> j_contactIndex (joysticks (Gamepad_touch 10 edge_pad 16777217 0 TOUCH_PRESS 0) ! 0) = 0"
proof -
  have "joysticks (Gamepad_touch 10 edge_pad 16777217 0 TOUCH_PRESS 0) ! 0
          = touch_joystick 16777217 0 TOUCH_PRESS 0 (joysticks edge_pad ! 0)"
    by (rule touch_joysticks_nth [OF wf_edge_pad]) (simp_all add: edge_pad_def)
  then have "j_contactIndex (joysticks (Gamepad_touch 10 edge_pad 16777217 0 TOUCH_PRESS 0) ! 0)
          = 0"
    by (simp add: touch_joystick_def joystick_move_contact edge_press_binds)
  moreover have "j_contactIndex (joysticks edge_pad ! 0) = INVALID_CONTACT_INDEX"
    by (simp add: edge_pad_def Joystick_ctor_def)
  moreover have "\<not> box_contains (joysticks edge_pad ! 0) 16777217 0"
    by (simp add: box_contains_def edge_pad_def)
  ultimately show ?thesis by blast
qed

subsection \<open>Index asserts\<close>

text \<open>
  Claim C7. \<open>getButtonState\<close>, \<open>getJoystickState\<close>, \<open>isJoystickActive\<close>,
  \<open>setButton\<close> and \<open>setJoystick\<close> each assert that the index is strictly below the
  count of buttons or of joysticks. With the index in range the assert does not fail,
  the element read lies inside the array, each getter returns the stored value and each
  setter returns the updated gamepad; with the index out of range the assert fails.
\<close>

theorem index_asserts:
  assumes "wf_Gamepad g"
  shows
    "(index < buttonCount g \<longrightarrow>
        index < length (buttons g)
        \<and> getButtonState g index = Inr (b_pressed (buttons g ! index))
        \<and> setButton g index bounds defaultTextureRegion focusTextureRegion
            = Inr (g\<lparr>buttons := (buttons g)[index :=
                     setButton_at (texture g) bounds defaultTextureRegion focusTextureRegion
                       (buttons g ! index)]\<rparr>))
     \<and> (\<not> index < buttonCount g \<longrightarrow>
        getButtonState g index = Inl AssertionFailed
        \<and> setButton g index bounds defaultTextureRegion focusTextureRegion = Inl AssertionFailed)
     \<and> (index < joystickCount g \<longrightarrow>
        index < length (joysticks g)
        \<and> getJoystickState g index = Inr (j_direction (joysticks g ! index))
        \<and> isJoystickActive g index
            = Inr (j_contactIndex (joysticks g ! index) \<noteq> INVALID_CONTACT_INDEX)
        \<and> setJoystick g index regionInner textureRegionInner regionOuter textureRegionOuter radius
            = Inr (g\<lparr>joysticks := (joysticks g)[index :=
                     setJoystick_at (texture g) regionInner textureRegionInner regionOuter
                       textureRegionOuter radius (joysticks g ! index)]\<rparr>))
     \<and> (\<not> index < joystickCount g \<longrightarrow>
        getJoystickState g index = Inl AssertionFailed
        \<and> isJoystickActive g index = Inl AssertionFailed
        \<and> setJoystick g index regionInner textureRegionInner regionOuter textureRegionOuter radius
            = Inl AssertionFailed)"
  using assms
  by (simp add: wf_Gamepad_def getButtonState_def setButton_def getJoystickState_def
      isJoystickActive_def setJoystick_def)

theorem index_asserts_witness:
  "wf_Gamepad example_held
   \<and> getButtonState example_held 0 = Inr BUTTON_PRESSED
   \<and> getButtonState example_held 1 = Inr BUTTON_RELEASED
   \<and> getButtonState example_held 2 = Inl AssertionFailed
   \<and> getJoystickState example_held 0 = Inr \<lparr>vec_x = Float (3 / 64), vec_y = Float (- (1 / 16))\<rparr>
   \<and> isJoystickActive example_held 0 = Inr True
   \<and> isJoystickActive example_held 1 = Inl AssertionFailed"
proof -
  have h: "wf_Gamepad example_held" by (rule wf_example_held)
  show ?thesis
    using h index_asserts [OF h, of 0] index_asserts [OF h, of 1] index_asserts [OF h, of 2]
    by (simp add: example_held_def example_pad_def Button_ctor_def zero_button_def
        INVALID_CONTACT_INDEX_def)
qed

subsection \<open>Moving a joystick\<close>

lemma fmul_reciprocal_power_of_two:
  assumes "k \<le> 100"
  shows "fmul a (fdiv (Float 1) (Float (2 ^ k))) = fdiv a (Float (2 ^ k))"
proof -
  have p: "(2::real) ^ k \<noteq> 0" "0 < (2::real) ^ k" by simp_all
  have "fl (1 / 2 ^ k) = Float (1 / 2 ^ k)"
    using assms fl_exact [of "1 / 2 ^ k" 1 "- int k"]
    by (simp add: power_int_minus inverse_eq_divide)
  then have r: "fdiv (Float 1) (Float (2 ^ k)) = Float (1 / 2 ^ k)"
    by (simp add: fdiv_Float)
  show ?thesis
    unfolding r
    by (cases a)
      (simp_all add: fmul_def fdiv_def is_inf_def is_zero_def is_finite_def sign_bit_def)
qed




subsection \<open>A press falls through to a move\<close>

text \<open>
  A joystick that the constructor built has the radius 0 and the memory of its inner
  region. A press at the position of that region activates it, and the move that
  follows multiplies zero by the infinity \<open>1.0f / 0\<close>: the direction is NaN in both
  components.
\<close>

lemma press_at_radius_zero:
  "j_radius (joysticks fresh_stick ! 0) = Float 0
   \<and> j_contactIndex (joysticks (Gamepad_touch 10 fresh_stick 0 0 TOUCH_PRESS 0) ! 0) = 0
   \<and> j_direction (joysticks (Gamepad_touch 10 fresh_stick 0 0 TOUCH_PRESS 0) ! 0)
       = \<lparr>vec_x = NaN, vec_y = NaN\<rparr>"
proof -
  have wf: "wf_Gamepad fresh_stick"
    by (simp add: wf_Gamepad_def fresh_stick_def)
  have "joysticks (Gamepad_touch 10 fresh_stick 0 0 TOUCH_PRESS 0) ! 0
          = touch_joystick 0 0 TOUCH_PRESS 0 (joysticks fresh_stick ! 0)"
    by (rule touch_joysticks_nth [OF wf]) (simp_all add: fresh_stick_def)
  then show ?thesis
    by (simp add: fresh_stick_def touch_joystick_def joystick_press_def
      joystick_move_def Joystick_ctor_def zero_joystick_def zero_Rect_def Vector2_zero_def
      Vector2_set_def Vector2_scale_def INVALID_CONTACT_INDEX_def fneg_def fmul_def fdiv_def
      is_inf_def is_zero_def is_finite_def sign_bit_def float_eval Let_def)
qed

text \<open>
  Claim C8, as the code has it. The \<open>TOUCH_PRESS\<close> case for joysticks has no \<open>break\<close>,
  so a press that activates a joystick is a press followed by a move in the same call
  of \<open>Gamepad::touch\<close>: the joystick after the call is what the move makes of the
  joystick that the press bound and reset. Its displacement is \<open>(dx, dy)\<close>, the single
  precision differences of \<open>x\<close> and \<open>y\<close> converted to \<open>float\<close> and the position of the
  inner region, and its direction is what the move computes from \<open>(dx, dy)\<close> and the
  radius, whatever the radius is; both replace the zero vectors that the press assigns
  first. When the position of the inner region, \<open>x\<close> and \<open>y\<close> are whole numbers below
  \<open>2 ^ 23\<close> in absolute value, the displacement is
  \<open>(x - regionInner.x, y - regionInner.y)\<close> exactly, as in the claim.
\<close>

theorem touch_press_falls_through:
  assumes "wf_Gamepad g" and "contactIndex < MAX_TOUCH_INPUTS" and "i < joystickCount g"
    and "j_contactIndex (joysticks g ! i) = INVALID_CONTACT_INDEX"
    and "fge (float_of_int x)
          (fsub (rect_x (j_regionInner (joysticks g ! i))) (j_radius (joysticks g ! i)))"
    and "fle (float_of_int x)
          (fadd (rect_x (j_regionInner (joysticks g ! i))) (j_radius (joysticks g ! i)))"
    and "fge (float_of_int y)
          (fsub (rect_y (j_regionInner (joysticks g ! i))) (j_radius (joysticks g ! i)))"
    and "fle (float_of_int y)
          (fadd (rect_y (j_regionInner (joysticks g ! i))) (j_radius (joysticks g ! i)))"
    and "dx = fsub (float_of_int x) (rect_x (j_regionInner (joysticks g ! i)))"
    and "dy = fsub (float_of_int y) (rect_y (j_regionInner (joysticks g ! i)))"
    and "r = j_radius (joysticks g ! i)"
    and "j' = joysticks (Gamepad_touch MAX_TOUCH_INPUTS g x y TOUCH_PRESS contactIndex) ! i"
  shows
    "j' = touch_joystick x y TOUCH_MOVE contactIndex
            ((joysticks g ! i)\<lparr>j_contactIndex := contactIndex,
                                 j_displacement := Vector2_zero,
                                 j_direction := Vector2_zero\<rparr>)
     \<and> j_contactIndex j' = contactIndex
     \<and> j_displacement j' = \<lparr>vec_x = dx, vec_y = dy\<rparr>
     \<and> j_direction j' =
         (if fle (fadd (fmul dx dx) (fmul dy dy)) (fmul r r)
          then Vector2_scale (fdiv (Float 1) r) \<lparr>vec_x = dx, vec_y = fneg dy\<rparr>
          else Vector2_normalize (Vector2_scale r
                 (Vector2_normalize \<lparr>vec_x = dx, vec_y = fneg dy\<rparr>)))
     \<and> (rect_x (j_regionInner (joysticks g ! i)) = Float (of_int bx)
        \<and> rect_y (j_regionInner (joysticks g ! i)) = Float (of_int by)
        \<and> \<bar>bx\<bar> < 2 ^ 23 \<and> \<bar>by\<bar> < 2 ^ 23 \<and> \<bar>x\<bar> < 2 ^ 23 \<and> \<bar>y\<bar> < 2 ^ 23
      \<longrightarrow> j_displacement j' = \<lparr>vec_x = Float (of_int (x - bx)), vec_y = Float (of_int (y - by))\<rparr>)"
proof -
  have nth: "j' = touch_joystick x y TOUCH_PRESS contactIndex (joysticks g ! i)"
    unfolding assms(12) using assms(1-3) by (rule touch_joysticks_nth)
  have press: "joystick_press x y contactIndex (joysticks g ! i)
                 = (joysticks g ! i)\<lparr>j_contactIndex := contactIndex,
                                       j_displacement := Vector2_zero,
                                       j_direction := Vector2_zero\<rparr>"
    using assms(4-8)
    by (simp add: joystick_press_def Let_def Vector2_set_def Vector2_zero_def)
  have code: "j' = touch_joystick x y TOUCH_MOVE contactIndex
            ((joysticks g ! i)\<lparr>j_contactIndex := contactIndex,
                                 j_displacement := Vector2_zero,
                                 j_direction := Vector2_zero\<rparr>)
     \<and> j_contactIndex j' = contactIndex
     \<and> j_displacement j' = \<lparr>vec_x = dx, vec_y = dy\<rparr>
     \<and> j_direction j' =
         (if fle (fadd (fmul dx dx) (fmul dy dy)) (fmul r r)
          then Vector2_scale (fdiv (Float 1) r) \<lparr>vec_x = dx, vec_y = fneg dy\<rparr>
          else Vector2_normalize (Vector2_scale r
                 (Vector2_normalize \<lparr>vec_x = dx, vec_y = fneg dy\<rparr>)))"
    unfolding nth assms(9,10,11)
    by (simp add: touch_joystick_def press joystick_move_def Let_def Vector2_set_def)
  have exact: "j_displacement j'
      = \<lparr>vec_x = Float (of_int (x - bx)), vec_y = Float (of_int (y - by))\<rparr>"
    if v: "rect_x (j_regionInner (joysticks g ! i)) = Float (of_int bx)"
      "rect_y (j_regionInner (joysticks g ! i)) = Float (of_int by)"
      and b: "\<bar>bx\<bar> < 2 ^ 23" "\<bar>by\<bar> < 2 ^ 23" "\<bar>x\<bar> < 2 ^ 23" "\<bar>y\<bar> < 2 ^ 23"
  proof -
    have "fsub (Float (of_int x)) (Float (of_int bx)) = Float (of_int (x - bx))"
      "fsub (Float (of_int y)) (Float (of_int by)) = Float (of_int (y - by))"
      using b fl_exact [of "of_int (x - bx)" "x - bx" 0] fl_exact [of "of_int (y - by)" "y - by" 0]
      by (simp_all add: fsub_Float)
    moreover have "float_of_int x = Float (of_int x)" "float_of_int y = Float (of_int y)"
      using b(3,4) by (simp_all add: float_of_int_exact)
    moreover from code have "j_displacement j' = \<lparr>vec_x = dx, vec_y = dy\<rparr>"
      by blast
    ultimately show ?thesis
      by (simp add: assms(9,10) v)
  qed
  from code exact show ?thesis by blast
qed

theorem touch_press_falls_through_witness:
  "wf_Gamepad example_pad \<and> (1::32 word) < 10 \<and> (0::nat) < joystickCount example_pad
   \<and> j_contactIndex (joysticks example_pad ! 0) = INVALID_CONTACT_INDEX
   \<and> j_displacement (joysticks (Gamepad_touch 10 example_pad 203 204 TOUCH_PRESS 1) ! 0)
       = \<lparr>vec_x = Float 3, vec_y = Float 4\<rparr>
   \<and> j_direction (joysticks (Gamepad_touch 10 example_pad 203 204 TOUCH_PRESS 1) ! 0)
       = \<lparr>vec_x = Float (3 / 64), vec_y = Float (- (1 / 16))\<rparr>"
proof -
  have h1: "wf_Gamepad example_pad" by (rule wf_example_pad)
  have h2: "(1::32 word) < 10" by simp
  have h3: "(0::nat) < joystickCount example_pad" by (simp add: example_pad_def)
  have h4: "j_contactIndex (joysticks example_pad ! 0) = INVALID_CONTACT_INDEX"
    by (simp add: example_pad_def Joystick_ctor_def)
  have h5: "fge (float_of_int 203)
          (fsub (rect_x (j_regionInner (joysticks example_pad ! 0)))
             (j_radius (joysticks example_pad ! 0)))"
    and h6: "fle (float_of_int 203)
          (fadd (rect_x (j_regionInner (joysticks example_pad ! 0)))
             (j_radius (joysticks example_pad ! 0)))"
    and h7: "fge (float_of_int 204)
          (fsub (rect_y (j_regionInner (joysticks example_pad ! 0)))
             (j_radius (joysticks example_pad ! 0)))"
    and h8: "fle (float_of_int 204)
          (fadd (rect_y (j_regionInner (joysticks example_pad ! 0)))
             (j_radius (joysticks example_pad ! 0)))"
    by (simp_all add: example_pad_def float_eval)
  note t = touch_press_falls_through [OF h1 h2 h3 h4 h5 h6 h7 h8 refl refl refl refl,
      THEN conjunct2, THEN conjunct2]
  have d: "fsub (float_of_int 203) (rect_x (j_regionInner (joysticks example_pad ! 0))) = Float 3"
    "fsub (float_of_int 204) (rect_y (j_regionInner (joysticks example_pad ! 0))) = Float 4"
    "j_radius (joysticks example_pad ! 0) = Float 64"
    by (simp_all add: example_pad_def float_eval)
  have "j_displacement (joysticks (Gamepad_touch 10 example_pad 203 204 TOUCH_PRESS 1) ! 0)
       = \<lparr>vec_x = Float 3, vec_y = Float 4\<rparr>"
    using t [THEN conjunct1] unfolding d .
  moreover have "j_direction (joysticks (Gamepad_touch 10 example_pad 203 204 TOUCH_PRESS 1) ! 0)
       = \<lparr>vec_x = Float (3 / 64), vec_y = Float (- (1 / 16))\<rparr>"
    using t [THEN conjunct2, THEN conjunct1] unfolding d
    by (simp add: float_eval fl_sixty_fourths Vector2_scale_def fneg_def)
  ultimately show ?thesis using h1 h2 h3 h4 by blast
qed

text \<open>
  Claim C8, as stated, gives the displacement \<open>(x - regionInner.x, y - regionInner.y)\<close>
  after every activating press. A press at \<open>(2 ^ 24 + 1, 0)\<close> activates the joystick of
  the edge gamepad, whose inner region is at \<open>(2 ^ 24, 0)\<close>, and the displacement after
  the call is the zero vector, while \<open>x - regionInner.x\<close> is 1.
\<close>

theorem touch_press_falls_through_counterexample:
  "j_contactIndex (joysticks edge_pad ! 0) = INVALID_CONTACT_INDEX
   \<and> j_contactIndex (joysticks (Gamepad_touch 10 edge_pad 16777217 0 TOUCH_PRESS 0) ! 0) = 0
   \<and> j_displacement (joysticks (Gamepad_touch 10 edge_pad 16777217 0 TOUCH_PRESS 0) ! 0)
       = \<lparr>vec_x = Float 0, vec_y = Float 0\<rparr>
   \<and> real_of_int 16777217 - valof (rect_x (j_regionInner (joysticks edge_pad ! 0))) = 1"
proof -
  have nth: "joysticks (Gamepad_touch 10 edge_pad 16777217 0 TOUCH_PRESS 0) ! 0
          = touch_joystick 16777217 0 TOUCH_PRESS 0 (joysticks edge_pad ! 0)"
    by (rule touch_joysticks_nth [OF wf_edge_pad]) (simp_all add: edge_pad_def)
  have c: "j_contactIndex (joysticks (Gamepad_touch 10 edge_pad 16777217 0 TOUCH_PRESS 0) ! 0)
          = 0"
    unfolding nth by (simp add: touch_joystick_def joystick_move_contact edge_press_binds)
  have "j_displacement (joysticks (Gamepad_touch 10 edge_pad 16777217 0 TOUCH_PRESS 0) ! 0)
       = \<lparr>vec_x = Float 0, vec_y = Float 0\<rparr>"
    unfolding nth
    by (simp add: touch_joystick_def edge_press_binds joystick_move_displacement)
      (simp add: edge_pad_def float_of_int_2_24_plus_1 float_eval)
  moreover have "j_contactIndex (joysticks edge_pad ! 0) = INVALID_CONTACT_INDEX"
    by (simp add: edge_pad_def Joystick_ctor_def)
  moreover have "real_of_int 16777217 - valof (rect_x (j_regionInner (joysticks edge_pad ! 0))) = 1"
    by (simp add: edge_pad_def)
  ultimately show ?thesis using c by blast
qed

subsection \<open>The direction after touches\<close>

lemma joystick_move_kinds:
  assumes "j_contactIndex j = c"
  shows "direction_kinds (joystick_move x y c j)"
  using assms
  by (simp add: direction_kinds_def within_radius_def joystick_move_def Let_def Vector2_set_def)

lemma joystick_move_other: "j_contactIndex j \<noteq> c \<Longrightarrow> joystick_move x y c j = j"
  by (simp add: joystick_move_def)

lemma touch_joystick_kinds:
  assumes "direction_kinds j"
  shows "direction_kinds (touch_joystick x y e c j)"
proof -
  have move: "direction_kinds (joystick_move x y c j')" if "direction_kinds j'" for j'
  proof (cases "j_contactIndex j' = c")
    case True
    then show ?thesis by (rule joystick_move_kinds)
  next
    case False
    with that show ?thesis by (simp add: joystick_move_other)
  qed
  show ?thesis
  proof (cases e)
    case TOUCH_PRESS
    have "direction_kinds (joystick_press x y c j)"
      using assms
      by (simp add: joystick_press_def Let_def direction_kinds_def Vector2_set_def Vector2_zero_def)
    then show ?thesis
      unfolding TOUCH_PRESS by (simp add: touch_joystick_def move)
  next
    case TOUCH_RELEASE
    with assms show ?thesis
      by (simp add: touch_joystick_def joystick_release_def direction_kinds_def
          Vector2_set_def Vector2_zero_def)
  next
    case TOUCH_MOVE
    with assms show ?thesis by (simp add: touch_joystick_def move)
  next
    case TOUCH_OTHER
    with assms show ?thesis by (simp add: touch_joystick_def)
  qed
qed

lemma Gamepad_touch_kinds:
  assumes "wf_Gamepad g" and "\<forall>j \<in> set (joysticks g). direction_kinds j"
  shows "\<forall>j \<in> set (joysticks (Gamepad_touch m g x y e c)). direction_kinds j"
proof (cases "c < m")
  case True
  with assms show ?thesis
    by (auto simp add: Gamepad_touch_map touch_joystick_kinds)
next
  case False
  with assms(2) show ?thesis by (simp add: Gamepad_touch_def)
qed

lemma touches_kinds:
  "wf_Gamepad g \<Longrightarrow> \<forall>j \<in> set (joysticks g). direction_kinds j \<Longrightarrow>
   wf_Gamepad (touches m g ts) \<and> (\<forall>j \<in> set (joysticks (touches m g ts)). direction_kinds j)"
proof (induction ts arbitrary: g)
  case Nil
  then show ?case by simp
next
  case (Cons t ts)
  let ?g = "Gamepad_touch m g (touch_x t) (touch_y t) (touch_event t) (touch_contact t)"
  have "wf_Gamepad ?g" using Cons.prems(1) by (rule wf_Gamepad_touch)
  moreover have "\<forall>j \<in> set (joysticks ?g). direction_kinds j"
    using Cons.prems by (rule Gamepad_touch_kinds)
  ultimately show ?case using Cons.IH [of ?g] by simp
qed

lemma Gamepad_ctor_fresh:
  assumes "Gamepad_ctor texturePath created joysticks_n buttons_n joystick_mem button_mem = Inr g"
  shows "wf_Gamepad g \<and> (\<forall>j \<in> set (joysticks g). j_direction j = Vector2_zero)"
  using assms
  by (auto simp add: Gamepad_ctor_def wf_Gamepad_def Joystick_ctor_def
      split: option.splits)

lemma setJoystick_at_direction:
  "j_direction (setJoystick_at t a b c d r j) = j_direction j"
  by (simp add: setJoystick_at_def Let_def split: option.splits)

lemma call_setter_fresh:
  assumes "call_setter g s = Inr g'" and "wf_Gamepad g"
    and "\<forall>j \<in> set (joysticks g). j_direction j = Vector2_zero"
  shows "wf_Gamepad g' \<and> (\<forall>j \<in> set (joysticks g'). j_direction j = Vector2_zero)"
proof (cases s)
  case (SetButton i bounds dflt focus)
  with assms show ?thesis
    by (auto simp add: setButton_def wf_Gamepad_def split: if_splits)
next
  case (SetJoystick i inner texInner outer texOuter radius)
  have "j_direction j = Vector2_zero"
    if "j \<in> set ((joysticks g)[i := setJoystick_at (texture g) inner texInner outer texOuter
          radius (joysticks g ! i)])" and "i < length (joysticks g)" for j
  proof -
    from that(1) have "j = setJoystick_at (texture g) inner texInner outer texOuter
          radius (joysticks g ! i) \<or> j \<in> set (joysticks g)"
      using set_update_subset_insert by fastforce
    then show ?thesis
      using assms(3) that(2) by (auto simp add: setJoystick_at_direction)
  qed
  with assms(1,2) SetJoystick show ?thesis
    by (auto simp add: setJoystick_def wf_Gamepad_def split: if_splits)
qed

lemma call_setters_fresh:
  "call_setters g ss = Inr g' \<Longrightarrow> wf_Gamepad g \<Longrightarrow>
   \<forall>j \<in> set (joysticks g). j_direction j = Vector2_zero \<Longrightarrow>
   wf_Gamepad g' \<and> (\<forall>j \<in> set (joysticks g'). j_direction j = Vector2_zero)"
proof (induction ss arbitrary: g)
  case Nil
  then show ?case by simp
next
  case (Cons s ss)
  from Cons.prems(1) obtain h where h: "call_setter g s = Inr h" "call_setters h ss = Inr g'"
    by (auto split: sum.splits)
  from call_setter_fresh [OF h(1) Cons.prems(2,3)] Cons.IH [OF h(2)]
  show ?case by blast
qed




subsection \<open>Drawing the inner joggle\<close>

lemma draw_joystick_inner_sprite:
  assumes "j_defaultTextureInnerEnabled j"
  shows "draw_joystick_inner color j =
     [\<lparr>sprite_x = fsub (fadd (rect_x (j_regionInner j)) (vec_x (joggle_delta j)))
                    (fmul (rect_width (j_regionInner j)) (Float (1 / 2))),
       sprite_y = fsub (fadd (rect_y (j_regionInner j)) (vec_y (joggle_delta j)))
                    (fmul (rect_height (j_regionInner j)) (Float (1 / 2))),
       sprite_width = rect_width (j_regionInner j),
       sprite_height = rect_height (j_regionInner j),
       sprite_uvs = j_defaultTexCoordInner j, sprite_color = color\<rparr>]"
proof -
  have v: "Vector2_set (vec_x (j_displacement j)) (vec_y (j_displacement j)) = j_displacement j"
    by (simp add: Vector2_set_def)
  show ?thesis
    using assms
    by (simp add: draw_joystick_inner_def joggle_delta_def within_radius_def Let_def v)
qed

lemma inner_joggle_drawn:
  assumes "i < joystickCount g" and "j_defaultTextureInnerEnabled (joysticks g ! i)"
  shows "hd (draw_joystick_inner color (joysticks g ! i)) \<in> set (Gamepad_draw g color)"
proof -
  have "hd (draw_joystick_inner color (joysticks g ! i))
               \<in> set (draw_joystick_inner color (joysticks g ! i))"
    by (simp add: draw_joystick_inner_sprite [OF assms(2)])
  with assms(1) show ?thesis
    by (auto simp add: Gamepad_draw_def)
qed

lemma int_square_bound:
  assumes "\<bar>a\<bar> < (2::int) ^ 11"
  shows "\<bar>a * a\<bar> < 2 ^ 22"
proof -
  have "\<bar>a\<bar> * \<bar>a\<bar> < 2 ^ 11 * 2 ^ 11"
    using assms by (intro mult_strict_mono) simp_all
  then show ?thesis
    by (simp add: abs_mult)
qed

lemma fmul_int_square:
  assumes "\<bar>a\<bar> < 2 ^ 11"
  shows "fmul (Float (of_int a)) (Float (of_int a)) = Float (of_int (a * a))"
proof -
  have "\<bar>a * a\<bar> < 2 ^ 24"
    using int_square_bound [OF assms] by simp
  then show ?thesis
    using fl_exact [of "of_int (a * a)" "a * a" 0] by (simp add: fmul_Float)
qed

lemma fadd_int:
  assumes "\<bar>a + b\<bar> < 2 ^ 24"
  shows "fadd (Float (of_int a)) (Float (of_int b)) = Float (of_int (a + b))"
  using assms fl_exact [of "of_int (a + b)" "a + b" 0] by (simp add: fadd_Float)

lemma fmul_half_int:
  assumes "\<bar>w\<bar> < 2 ^ 24"
  shows "fmul (Float (of_int w)) (Float (1 / 2)) = Float (of_int w / 2)"
  using assms fl_exact [of "of_int w / 2" w "- 1"] by (simp add: fmul_Float)

lemma fsub_int_half:
  assumes "\<bar>2 * a - w\<bar> < 2 ^ 24"
  shows "fsub (Float (of_int a)) (Float (of_int w / 2)) = Float (of_int a - of_int w / 2)"
proof -
  have "real_of_int a - real_of_int w / 2 = of_int (2 * a - w) * 2 powi (- 1)"
    by (simp add: field_simps)
  then show ?thesis
    using assms fl_exact [of "of_int a - of_int w / 2" "2 * a - w" "- 1"]
    by (simp add: fsub_Float)
qed

lemma within_radius_int:
  assumes "j_displacement j = \<lparr>vec_x = Float (of_int dx), vec_y = Float (of_int dy)\<rparr>"
    and "j_radius j = Float (of_int r)"
    and "\<bar>dx\<bar> < 2 ^ 11" and "\<bar>dy\<bar> < 2 ^ 11" and "\<bar>r\<bar> < 2 ^ 11"
  shows "within_radius j \<longleftrightarrow> dx * dx + dy * dy \<le> r * r"
proof -
  have "\<bar>dx * dx + dy * dy\<bar> < 2 ^ 24"
    using int_square_bound [OF assms(3)] int_square_bound [OF assms(4)] by simp
  then have "fadd (Float (of_int (dx * dx))) (Float (of_int (dy * dy)))
               = Float (of_int (dx * dx + dy * dy))"
    by (rule fadd_int)
  then have "within_radius j \<longleftrightarrow> real_of_int (dx * dx + dy * dy) \<le> real_of_int (r * r)"
    unfolding within_radius_def assms(1,2)
    by (simp only: Vector2.simps fmul_int_square [OF assms(3)] fmul_int_square [OF assms(4)]
        fmul_int_square [OF assms(5)] fle_Float)
  then show ?thesis by (simp only: of_int_le_iff)
qed

lemma example_negative_setup:
  "setJoystick example_pad 0 None None None None (Float (- 1)) = Inr example_negative"
  by (simp add: setJoystick_def setJoystick_at_def example_negative_def example_pad_def)





subsection \<open>Texture coordinates\<close>

text \<open>
  Rounding moves a real of absolute value below 1 by at most \<open>1 / 2 ^ 25\<close>, keeps its
  sign, and takes no real up to \<open>1 + 1 / 2 ^ 24\<close> above 1. On a texture whose sizes are
  powers of two, the texture coordinates of a rectangle of whole numbers are exact.
\<close>

lemma round_half_even_bounds:
  "real_of_int (round_half_even q) \<le> q + 1 / 2"
  "q - 1 / 2 \<le> real_of_int (round_half_even q)"
  "\<lfloor>q\<rfloor> \<le> round_half_even q"
  "round_half_even q \<le> \<lfloor>q\<rfloor> + 1"
  unfolding round_half_even_def by (simp_all; linarith)+

lemma ulp_exponent_small:
  assumes "r \<noteq> 0" and "\<bar>r\<bar> < 1"
  shows "ulp_exponent r \<le> - 24"
proof -
  have "log 2 \<bar>r\<bar> < 0"
    using assms by simp
  then have "\<lfloor>log 2 \<bar>r\<bar>\<rfloor> < 0"
    by linarith
  then show ?thesis
    unfolding ulp_exponent_def by linarith
qed

lemma round_binary32_error:
  assumes "\<bar>r\<bar> < 1"
  shows "\<bar>round_binary32 r - r\<bar> \<le> 1 / 2 ^ 25"
proof (cases "r = 0")
  case True
  then show ?thesis by (simp add: round_binary32_def)
next
  case False
  define p :: real where "p = 2 powi ulp_exponent r"
  define q where "q = r / p"
  have p: "0 < p" by (simp add: p_def)
  have "p \<le> 2 powi (- 24)"
    unfolding p_def using ulp_exponent_small [OF False assms]
    by (intro power_int_increasing) simp_all
  then have p24: "p \<le> 1 / 2 ^ 24"
    by (simp add: power_int_minus inverse_eq_divide)
  have r: "r = q * p" using p by (simp add: q_def)
  have "round_binary32 r = real_of_int (round_half_even q) * p"
    using False by (simp add: round_binary32_def p_def q_def)
  then have "round_binary32 r - r = (real_of_int (round_half_even q) - q) * p"
    using r by (simp add: algebra_simps)
  moreover have "\<bar>real_of_int (round_half_even q) - q\<bar> \<le> 1 / 2"
    using round_half_even_bounds(1,2) [of q] by linarith
  ultimately have "\<bar>round_binary32 r - r\<bar> \<le> 1 / 2 * p"
    using p by (simp add: abs_mult)
  with p24 show ?thesis by simp
qed

lemma round_binary32_nonpos:
  assumes "r \<le> 0"
  shows "round_binary32 r \<le> 0"
proof (cases "r = 0")
  case True
  then show ?thesis by (simp add: round_binary32_def)
next
  case False
  define p :: real where "p = 2 powi ulp_exponent r"
  have p: "0 < p" by (simp add: p_def)
  have "r / p < 0" using False assms p by (simp add: divide_neg_pos)
  then have "\<lfloor>r / p\<rfloor> \<le> - 1" by linarith
  then have "round_half_even (r / p) \<le> 0"
    using round_half_even_bounds(4) [of "r / p"] by linarith
  then have "real_of_int (round_half_even (r / p)) * p \<le> 0"
    using p by (simp add: mult_le_0_iff)
  then show ?thesis
    using False by (simp add: round_binary32_def p_def)
qed

lemma round_binary32_nonneg:
  assumes "0 \<le> r"
  shows "0 \<le> round_binary32 r"
proof (cases "r = 0")
  case True
  then show ?thesis by (simp add: round_binary32_def)
next
  case False
  define p :: real where "p = 2 powi ulp_exponent r"
  have p: "0 < p" by (simp add: p_def)
  have "0 \<le> r / p" using assms p by simp
  then have "0 \<le> \<lfloor>r / p\<rfloor>" by simp
  then have "0 \<le> round_half_even (r / p)"
    using round_half_even_bounds(3) [of "r / p"] by linarith
  then have "0 \<le> real_of_int (round_half_even (r / p)) * p"
    using p by simp
  then show ?thesis
    using False by (simp add: round_binary32_def p_def)
qed

lemma round_binary32_one: "round_binary32 1 = 1"
  using round_binary32_exact [of 1 1 0] by simp

lemma round_binary32_below_one:
  assumes "0 < r" and "r < 1"
  shows "round_binary32 r \<le> 1"
proof -
  define e where "e = ulp_exponent r"
  define N :: int where "N = 2 ^ nat (- e)"
  have r0: "r \<noteq> 0" and r1: "\<bar>r\<bar> < 1" using assms by simp_all
  have e: "e \<le> - 24" unfolding e_def by (rule ulp_exponent_small [OF r0 r1])
  have pN: "(2::real) powi e = 1 / real_of_int N"
    using e by (simp add: N_def power_int_def power_one_over inverse_eq_divide)
  have N: "0 < N" by (simp add: N_def)
  have "r / 2 powi e = r * real_of_int N"
    by (simp add: pN)
  also have "\<dots> < real_of_int N"
    using assms(2) N by simp
  finally have "\<lfloor>r / 2 powi e\<rfloor> < N" by linarith
  then have "round_half_even (r / 2 powi e) \<le> N"
    using round_half_even_bounds(4) [of "r / 2 powi e"] by linarith
  then have "real_of_int (round_half_even (r / 2 powi e)) \<le> real_of_int N"
    by (simp only: of_int_le_iff)
  then have "real_of_int (round_half_even (r / 2 powi e)) * 2 powi e \<le> 1"
    using N by (simp add: pN divide_le_eq)
  then show ?thesis
    using r0 by (simp add: round_binary32_def e_def)
qed

lemma round_binary32_above_one:
  assumes "1 < r" and "r \<le> 1 + 1 / 2 ^ 24"
  shows "round_binary32 r = 1"
proof -
  have a: "2 powi 0 \<le> \<bar>r\<bar>" and b: "\<bar>r\<bar> < 2 powi (0 + 1)"
    using assms by simp_all
  define q where "q = r * 2 ^ 23"
  have q1: "2 ^ 23 < q" and q2: "q \<le> 2 ^ 23 + 1 / 2"
    using assms by (simp_all add: q_def)
  have f: "\<lfloor>q\<rfloor> = 2 ^ 23"
    using q1 q2 by (intro floor_unique) simp_all
  have "round_half_even q = 2 ^ 23"
    using q2 by (simp add: round_half_even_def f)
  then show ?thesis
    using round_binary32_normal [OF a b]
    by (simp add: power_int_minus inverse_eq_divide q_def)
qed

lemma round_binary32_le_one:
  assumes "r \<le> 1 + 1 / 2 ^ 24"
  shows "round_binary32 r \<le> 1"
proof -
  consider "r \<le> 0" | "0 < r" "r < 1" | "r = 1" | "1 < r" by linarith
  then show ?thesis
  proof cases
    case 1
    then show ?thesis using round_binary32_nonpos [of r] by simp
  next
    case 2
    then show ?thesis by (rule round_binary32_below_one)
  next
    case 3
    then show ?thesis by (simp add: round_binary32_one)
  next
    case 4
    then show ?thesis using round_binary32_above_one [OF _ assms] by simp
  qed
qed

lemma round_binary32_unit:
  assumes "0 \<le> r" and "r \<le> 1"
  shows "0 \<le> round_binary32 r" and "round_binary32 r \<le> 1"
    and "\<bar>round_binary32 r - r\<bar> \<le> 1 / 2 ^ 25"
proof -
  show "0 \<le> round_binary32 r" using assms(1) by (rule round_binary32_nonneg)
  show "round_binary32 r \<le> 1" using assms(2) by (intro round_binary32_le_one) simp
  show "\<bar>round_binary32 r - r\<bar> \<le> 1 / 2 ^ 25"
  proof (cases "r = 1")
    case True
    then show ?thesis by (simp add: round_binary32_one)
  next
    case False
    then have "\<bar>r\<bar> < 1" using assms by simp
    then show ?thesis by (rule round_binary32_error)
  qed
qed


lemma fl_near_unit:
  assumes "- 1 < r" and "r \<le> 1 + 1 / 2 ^ 24"
  shows "is_finite (fl r)" and "valof (fl r) = round_binary32 r"
proof -
  have hi: "round_binary32 r \<le> 1"
    using assms(2) by (rule round_binary32_le_one)
  have lo: "- 2 \<le> round_binary32 r"
  proof (cases "r < 0")
    case True
    then have "\<bar>r\<bar> < 1" using assms(1) by simp
    then have "\<bar>round_binary32 r - r\<bar> \<le> 1 / 2 ^ 25"
      by (rule round_binary32_error)
    moreover have "(1::real) / 2 ^ 25 \<le> 1" by simp
    ultimately have "r - 1 \<le> round_binary32 r" by linarith
    with assms(1) show ?thesis by linarith
  next
    case False
    then show ?thesis using round_binary32_nonneg [of r] by simp
  qed
  have a: "\<not> 2 ^ 128 \<le> round_binary32 r"
    using hi by simp
  have b: "\<not> round_binary32 r \<le> - (2 ^ 128)"
    using lo by simp
  show "is_finite (fl r)"
    using a b by (simp add: fl_def Let_def is_finite_def)
  show "valof (fl r) = round_binary32 r"
    using a b by (simp add: fl_def Let_def)
qed

lemma fle_finite:
  assumes "is_finite a"
  shows "fle (Float c) a \<longleftrightarrow> c \<le> valof a" and "fle a (Float c) \<longleftrightarrow> valof a \<le> c"
  using assms by (simp_all add: fle_def is_finite_def)

lemma in_unit_finite:
  assumes "is_finite a" and "0 \<le> valof a" and "valof a \<le> 1"
  shows "in_unit a"
  using assms by (simp add: in_unit_def fle_finite)

lemma fneg_finite:
  assumes "is_finite a"
  shows "is_finite (fneg a)" and "valof (fneg a) = - valof a"
  using assms by (cases a; simp add: fneg_def is_finite_def)+

lemma fadd_near_unit:
  assumes "is_finite a" and "is_finite b"
    and "- 1 < valof a + valof b" and "valof a + valof b \<le> 1 + 1 / 2 ^ 24"
  shows "is_finite (fadd a b)" and "valof (fadd a b) = round_binary32 (valof a + valof b)"
proof -
  have z: "round_binary32 0 = 0" by (simp add: round_binary32_def)
  show "is_finite (fadd a b)"
    using assms(1,2) fl_near_unit(1) [OF assms(3,4)]
    by (simp add: fadd_def is_finite_def)
  show "valof (fadd a b) = round_binary32 (valof a + valof b)"
    using assms(1,2) fl_near_unit(2) [OF assms(3,4)] z
    by (simp add: fadd_def is_finite_def)
qed

lemma fsub_near_unit:
  assumes "is_finite a" and "is_finite b"
    and "- 1 < valof a - valof b" and "valof a - valof b \<le> 1 + 1 / 2 ^ 24"
  shows "is_finite (fsub a b)" and "valof (fsub a b) = round_binary32 (valof a - valof b)"
  using fadd_near_unit [of a "fneg b"] assms fneg_finite [OF assms(2)]
  by (simp_all add: fsub_def)

lemma fdiv_by_size:
  assumes "is_finite a" and "0 \<le> valof a" and "valof a \<le> real n"
    and "0 < n" and "n < 2 ^ 24"
  shows "is_finite (fdiv a (float_of_nat n))"
    and "valof (fdiv a (float_of_nat n)) = round_binary32 (valof a / real n)"
proof -
  have z: "round_binary32 0 = 0" by (simp add: round_binary32_def)
  have n: "float_of_nat n = Float (real n)"
    using assms(5) by (rule float_of_nat_exact)
  have q: "- 1 < valof a / real n" "valof a / real n \<le> 1 + 1 / 2 ^ 24"
  proof -
    have "0 \<le> valof a / real n" using assms(2) by simp
    then show "- 1 < valof a / real n" by simp
    have "valof a / real n \<le> 1" using assms(3,4) by (simp add: divide_le_eq)
    moreover have "(0::real) \<le> 1 / 2 ^ 24" by simp
    ultimately show "valof a / real n \<le> 1 + 1 / 2 ^ 24" by linarith
  qed
  show "is_finite (fdiv a (float_of_nat n))"
    using assms(1,4) fl_near_unit(1) [OF q]
    by (simp add: n fdiv_def is_finite_def is_inf_def is_zero_def)
  show "valof (fdiv a (float_of_nat n)) = round_binary32 (valof a / real n)"
    using assms(1,4) fl_near_unit(2) [OF q] z
    by (simp add: n fdiv_def is_finite_def is_inf_def is_zero_def)
qed

lemma texCoord_bounds:
  assumes "rect_in_texture t r" and "getWidth t < 2 ^ 24" and "getHeight t < 2 ^ 24"
  shows "in_unit (uv_u1 (texCoord t r))" and "in_unit (uv_v1 (texCoord t r))"
    and "in_unit (uv_u2 (texCoord t r))"
    and "fle (Float (- (1 / 2 ^ 23))) (uv_v2 (texCoord t r))"
    and "fle (uv_v2 (texCoord t r)) (Float 1)"
proof -
  define W where "W = real (getWidth t)"
  define H where "H = real (getHeight t)"
  define X where "X = valof (rect_x r) / W"
  define Y where "Y = valof (rect_y r) / H"
  define B where "B = valof (rect_width r) / W"
  define D where "D = valof (rect_height r) / H"
  define u1 where "u1 = fdiv (rect_x r) (float_of_nat (getWidth t))"
  define ay where "ay = fdiv (rect_y r) (float_of_nat (getHeight t))"
  define bw where "bw = fdiv (rect_width r) (float_of_nat (getWidth t))"
  define bh where "bh = fdiv (rect_height r) (float_of_nat (getHeight t))"
  define v1 where "v1 = fsub (Float 1) ay"
  define u2 where "u2 = fadd u1 bw"
  define v2 where "v2 = fsub v1 bh"
  have uv: "texCoord t r = \<lparr>uv_u1 = u1, uv_v1 = v1, uv_u2 = u2, uv_v2 = v2\<rparr>"
    by (simp add: texCoord_def Let_def u1_def v1_def u2_def v2_def ay_def bw_def bh_def)
  have fin: "is_finite (rect_x r)" "is_finite (rect_y r)"
    "is_finite (rect_width r)" "is_finite (rect_height r)"
    and pos: "0 < getWidth t" "0 < getHeight t"
    and x0: "0 \<le> valof (rect_x r)" and w0: "0 \<le> valof (rect_width r)"
    and xw: "valof (rect_x r) + valof (rect_width r) \<le> W"
    and y0: "0 \<le> valof (rect_y r)" and h0: "0 \<le> valof (rect_height r)"
    and yh: "valof (rect_y r) + valof (rect_height r) \<le> H"
    using assms(1) by (simp_all add: rect_in_texture_def W_def H_def)
  have Wp: "0 < W" and Hp: "0 < H" using pos by (simp_all add: W_def H_def)
  have X: "0 \<le> X" "X \<le> 1" and B: "0 \<le> B" "B \<le> 1" and XB: "X + B \<le> 1"
    using x0 w0 xw Wp by (simp_all add: X_def B_def divide_le_eq add_divide_distrib [symmetric])
  have Y: "0 \<le> Y" "Y \<le> 1" and D: "0 \<le> D" "D \<le> 1" and YD: "Y + D \<le> 1"
    using y0 h0 yh Hp by (simp_all add: Y_def D_def divide_le_eq add_divide_distrib [symmetric])
  have u1: "is_finite u1" "valof u1 = round_binary32 X"
    unfolding u1_def X_def W_def
    using fin(1) x0 w0 xw pos(1) assms(2) by (intro fdiv_by_size; simp add: W_def)+
  have ay: "is_finite ay" "valof ay = round_binary32 Y"
    unfolding ay_def Y_def H_def
    using fin(2) y0 h0 yh pos(2) assms(3) by (intro fdiv_by_size; simp add: H_def)+
  have bw: "is_finite bw" "valof bw = round_binary32 B"
    unfolding bw_def B_def W_def
    using fin(3) x0 w0 xw pos(1) assms(2) by (intro fdiv_by_size; simp add: W_def)+
  have bh: "is_finite bh" "valof bh = round_binary32 D"
    unfolding bh_def D_def H_def
    using fin(4) y0 h0 yh pos(2) assms(3) by (intro fdiv_by_size; simp add: H_def)+
  note rX = round_binary32_unit [OF X]
  note rY = round_binary32_unit [OF Y]
  note rB = round_binary32_unit [OF B]
  note rD = round_binary32_unit [OF D]
  show "in_unit (uv_u1 (texCoord t r))"
    using u1 rX by (simp add: uv in_unit_finite)
  have s1: "0 \<le> 1 - valof ay" "1 - valof ay \<le> 1"
    using ay rY by simp_all
  have f1: "is_finite (Float 1)" by (simp add: is_finite_def)
  have v1: "is_finite v1" "valof v1 = round_binary32 (1 - valof ay)"
    unfolding v1_def using fsub_near_unit [OF f1 ay(1)] s1 by simp_all
  note rv1 = round_binary32_unit [OF s1]
  show "in_unit (uv_v1 (texCoord t r))"
    using v1 rv1 by (simp add: uv in_unit_finite)
  have s2: "0 \<le> valof u1 + valof bw" "valof u1 + valof bw \<le> 1 + 1 / 2 ^ 24"
  proof -
    show "0 \<le> valof u1 + valof bw"
      using u1(2) bw(2) rX(1) rB(1) by simp
    have "valof u1 + valof bw \<le> (X + 1 / 2 ^ 25) + (B + 1 / 2 ^ 25)"
      using u1(2) bw(2) rX(3) rB(3) by linarith
    also have "\<dots> \<le> 1 + 1 / 2 ^ 24"
      using XB by simp
    finally show "valof u1 + valof bw \<le> 1 + 1 / 2 ^ 24" .
  qed
  have u2: "is_finite u2" "valof u2 = round_binary32 (valof u1 + valof bw)"
    unfolding u2_def using fadd_near_unit [OF u1(1) bw(1)] s2 by simp_all
  show "in_unit (uv_u2 (texCoord t r))"
    using u2 round_binary32_nonneg [OF s2(1)] round_binary32_le_one [OF s2(2)]
    by (simp add: uv in_unit_finite)
  have s3: "- (3 / 2 ^ 25) \<le> valof v1 - valof bh" "valof v1 - valof bh \<le> 1"
  proof -
    show "valof v1 - valof bh \<le> 1"
      using v1(2) bh(2) rv1(2) rD(1) by simp
    have "(1 - (Y + 1 / 2 ^ 25) - 1 / 2 ^ 25) - (D + 1 / 2 ^ 25) \<le> valof v1 - valof bh"
      using v1(2) bh(2) ay(2) rv1(3) rY(3) rD(3) by linarith
    moreover have "- (3 / 2 ^ 25) \<le> (1 - (Y + 1 / 2 ^ 25) - 1 / 2 ^ 25) - (D + 1 / 2 ^ 25)"
      using YD by simp
    ultimately show "- (3 / 2 ^ 25) \<le> valof v1 - valof bh" by linarith
  qed
  have v2: "is_finite v2" "valof v2 = round_binary32 (valof v1 - valof bh)"
    unfolding v2_def using fsub_near_unit [OF v1(1) bh(1)] s3 by simp_all
  have hi: "valof v2 \<le> 1"
    using round_binary32_le_one [of "valof v1 - valof bh"] s3(2) v2(2) by simp
  have lo: "- (1 / 2 ^ 23) \<le> valof v2"
  proof (cases "valof v1 - valof bh < 0")
    case True
    then have "\<bar>valof v1 - valof bh\<bar> < 1" using s3(1) by simp
    then have "\<bar>round_binary32 (valof v1 - valof bh) - (valof v1 - valof bh)\<bar> \<le> 1 / 2 ^ 25"
      by (rule round_binary32_error)
    then have "valof v1 - valof bh - 1 / 2 ^ 25 \<le> round_binary32 (valof v1 - valof bh)"
      by linarith
    moreover have "- (1 / 2 ^ 23) = - (3 / 2 ^ 25) - (1::real) / 2 ^ 25"
      by simp
    ultimately show ?thesis using s3(1) unfolding v2(2) by linarith
  next
    case False
    then show ?thesis
      using round_binary32_nonneg [of "valof v1 - valof bh"] v2(2) by simp
  qed
  show "fle (Float (- (1 / 2 ^ 23))) (uv_v2 (texCoord t r))"
    using lo v2(1) by (simp add: uv fle_finite)
  show "fle (uv_v2 (texCoord t r)) (Float 1)"
    using hi v2(1) by (simp add: uv fle_finite)
qed


lemma power_two_below:
  assumes "k < 24"
  shows "(2::nat) ^ k < 2 ^ 24" and "(2::nat) ^ k \<le> 2 ^ 23"
proof -
  show "(2::nat) ^ k < 2 ^ 24"
    using assms by (intro power_strict_increasing) simp_all
  show "(2::nat) ^ k \<le> 2 ^ 23"
    using assms by (intro power_increasing) simp_all
qed

lemma fl_dyadic:
  assumes "n \<le> 2 ^ k" and "k < 24"
  shows "fl (real n / 2 ^ k) = Float (real n / 2 ^ k)"
proof -
  have "n < 2 ^ 24"
    using assms(1) power_two_below(1) [OF assms(2)] by simp
  then have "\<bar>int n\<bar> < 2 ^ 24" by simp
  moreover have "real n / 2 ^ k = real_of_int (int n) * 2 powi (- int k)"
    by (simp add: power_int_minus inverse_eq_divide)
  ultimately show ?thesis
    using fl_exact [of "real n / 2 ^ k" "int n" "- int k"] assms(2) by simp
qed

lemma fdiv_dyadic:
  assumes "n \<le> 2 ^ k" and "k < 24"
  shows "fdiv (Float (real n)) (float_of_nat (2 ^ k)) = Float (real n / 2 ^ k)"
  using fl_dyadic [OF assms] float_of_nat_exact [OF power_two_below(1) [OF assms(2)]]
  by (simp add: fdiv_Float)

lemma fadd_dyadic:
  assumes "m + n \<le> 2 ^ k" and "k < 24"
  shows "fadd (Float (real m / 2 ^ k)) (Float (real n / 2 ^ k)) = Float (real (m + n) / 2 ^ k)"
  using fl_dyadic [OF assms]
  by (simp add: fadd_Float add_divide_distrib)

lemma fsub_dyadic:
  assumes "n \<le> m" and "m \<le> 2 ^ k" and "k < 24"
  shows "fsub (Float (real m / 2 ^ k)) (Float (real n / 2 ^ k)) = Float (real (m - n) / 2 ^ k)"
proof -
  have "m - n \<le> 2 ^ k" using assms(2) by simp
  then show ?thesis
    using fl_dyadic [OF _ assms(3), of "m - n"] assms(1)
    by (simp add: fsub_Float diff_divide_distrib of_nat_diff)
qed

lemma texCoord_dyadic:
  assumes "getWidth t = 2 ^ k" and "getHeight t = 2 ^ l" and "k < 24" and "l < 24"
    and "x + w \<le> 2 ^ k" and "y + h \<le> 2 ^ l"
  shows "texCoord t \<lparr>rect_x = Float (real x), rect_y = Float (real y),
                      rect_width = Float (real w), rect_height = Float (real h)\<rparr>
     = \<lparr>uv_u1 = Float (real x / 2 ^ k), uv_v1 = Float (real (2 ^ l - y) / 2 ^ l),
        uv_u2 = Float (real (x + w) / 2 ^ k), uv_v2 = Float (real (2 ^ l - y - h) / 2 ^ l)\<rparr>"
proof -
  have x: "x \<le> 2 ^ k" and w: "w \<le> 2 ^ k" and y: "y \<le> 2 ^ l" and h: "h \<le> 2 ^ l"
    using assms(5,6) by simp_all
  have one: "Float 1 = Float (real (2 ^ l) / 2 ^ l)" by simp
  have hy: "h \<le> 2 ^ l - y" using assms(6) by simp
  have v1: "fsub (Float 1) (Float (real y / 2 ^ l)) = Float (real (2 ^ l - y) / 2 ^ l)"
    unfolding one by (rule fsub_dyadic [OF y _ assms(4)]) simp
  have v2: "fsub (Float (real (2 ^ l - y) / 2 ^ l)) (Float (real h / 2 ^ l))
              = Float (real (2 ^ l - y - h) / 2 ^ l)"
    by (rule fsub_dyadic [OF hy _ assms(4)]) simp
  show ?thesis
    by (simp only: texCoord_def Let_def assms(1,2) Rect.simps fdiv_dyadic [OF x assms(3)]
        fdiv_dyadic [OF w assms(3)] fdiv_dyadic [OF y assms(4)] fdiv_dyadic [OF h assms(4)]
        v1 v2 fadd_dyadic [OF assms(5,3)])
qed

lemma texCoord_dyadic_in_unit:
  assumes "getWidth t = 2 ^ k" and "getHeight t = 2 ^ l" and "k < 24" and "l < 24"
    and "x + w \<le> 2 ^ k" and "y + h \<le> 2 ^ l"
  shows "uvs_in_unit (texCoord t \<lparr>rect_x = Float (real x), rect_y = Float (real y),
                      rect_width = Float (real w), rect_height = Float (real h)\<rparr>)"
proof -
  have le: "real n \<le> 2 ^ m" if "n \<le> 2 ^ m" for n m :: nat
  proof -
    have "real n \<le> real (2 ^ m)" using that by (simp only: of_nat_le_iff)
    then show ?thesis by simp
  qed
  have a: "real x \<le> 2 ^ k" "real (x + w) \<le> 2 ^ k"
    using assms(5) by (intro le; simp)+
  have b: "real (2 ^ l - y) \<le> 2 ^ l" "real (2 ^ l - y - h) \<le> 2 ^ l"
    by (intro le; simp)+
  show ?thesis
    unfolding texCoord_dyadic [OF assms] uvs_in_unit_def in_unit_def
    using a b by (simp add: divide_le_eq)
qed

lemma setButton_texCoord:
  assumes "wf_Gamepad g"
  shows "setButton g i bounds (Some r) focusRegion = Inr g' \<Longrightarrow>
     b_defaultTexCoord (buttons g' ! i) = texCoord (texture g) r"
    and "setButton g i bounds defaultRegion (Some r) = Inr g' \<Longrightarrow>
     b_focusTexCoord (buttons g' ! i) = texCoord (texture g) r"
  using assms
  by (auto simp add: setButton_def setButton_at_def wf_Gamepad_def Let_def
      split: if_splits option.splits)

lemma setJoystick_texCoord:
  assumes "wf_Gamepad g"
  shows "setJoystick g i regionInner (Some r) regionOuter texOuter radius = Inr g' \<Longrightarrow>
     j_defaultTexCoordInner (joysticks g' ! i) = texCoord (texture g) r"
    and "setJoystick g i regionInner texInner regionOuter (Some r) radius = Inr g' \<Longrightarrow>
     j_defaultTexCoordOuter (joysticks g' ! i) = texCoord (texture g) r"
  using assms
  by (auto simp add: setJoystick_def setJoystick_at_def wf_Gamepad_def Let_def
      split: if_splits option.splits)


lemma round_binary32_100:
  "round_binary32 (33 / 100) = 11072963 / 33554432"
  "round_binary32 (22481469 / 33554432) = 5620367 / 8388608"
  "round_binary32 (67 / 100) = 11240735 / 16777216"
proof -
  have "round_binary32 (33 / 100)
          = of_int (round_half_even ((33 / 100) / 2 powi (- 2 - 23))) * 2 powi (- 2 - 23)"
    by (rule round_binary32_normal) simp_all
  also have "\<dots> = 11072963 / 33554432"
    by (simp add: round_half_even_def)
  finally show "round_binary32 (33 / 100) = 11072963 / 33554432" .
  have "round_binary32 (22481469 / 33554432)
          = of_int (round_half_even ((22481469 / 33554432) / 2 powi (- 1 - 23)))
              * 2 powi (- 1 - 23)"
    by (rule round_binary32_normal) simp_all
  also have "\<dots> = 5620367 / 8388608"
    by (simp add: round_half_even_def)
  finally show "round_binary32 (22481469 / 33554432) = 5620367 / 8388608" .
  have "round_binary32 (67 / 100)
          = of_int (round_half_even ((67 / 100) / 2 powi (- 1 - 23))) * 2 powi (- 1 - 23)"
    by (rule round_binary32_normal) simp_all
  also have "\<dots> = 11240735 / 16777216"
    by (simp add: round_half_even_def)
  finally show "round_binary32 (67 / 100) = 11240735 / 16777216" .
qed

lemma fl_100:
  "fl (33 / 100) = Float (11072963 / 33554432)"
  "fl (22481469 / 33554432) = Float (5620367 / 8388608)"
  "fl (67 / 100) = Float (11240735 / 16777216)"
  by (simp_all only: fl_def round_binary32_100 Let_def) simp_all

lemma fl_100_exact:
  "fl (- (1 / 16777216)) = Float (- (1 / 16777216))" "fl (9 / 4) = Float (9 / 4)"
  using fl_exact [of "- (1 / 16777216)" "- 1" "- 24"] fl_exact [of "9 / 4" 9 "- 2"]
  by simp_all

lemma texCoord_100:
  "texCoord texture_100 region_100
     = \<lparr>uv_u1 = Float 0, uv_v1 = Float (5620367 / 8388608),
        uv_u2 = Float (1 / 4), uv_v2 = Float (- (1 / 16777216))\<rparr>"
  by (simp add: texCoord_def texture_100_def region_100_def Let_def float_eval fl_quarters
      fl_100 fl_100_exact)

text \<open>
  Claim C3, as the code has it. \<open>setButton\<close> stores the texture coordinates of its
  default and of its focus texture region, and \<open>setJoystick\<close> those of its inner and of
  its outer texture region. For every region rectangle that lies within the texture
  (the fields of the rectangle are finite, \<open>x\<close>, \<open>y\<close>, \<open>width\<close> and \<open>height\<close> are not
  negative, \<open>x + width\<close> is at most the width of the texture and \<open>y + height\<close> at most
  its height) of a texture whose width and height are positive and below \<open>2 ^ 24\<close>,
  each of \<open>u1\<close>, \<open>v1\<close> and \<open>u2\<close> computed from it is in the interval from 0 to 1, and
  \<open>v2\<close> is in the interval from \<open>- 1 / 2 ^ 23\<close> to 1. When the width and the height of
  the texture are powers of two and the fields of the rectangle are whole numbers,
  \<open>v2\<close> is in the interval from 0 to 1 as well.
\<close>

theorem texture_coordinates_within_texture:
  assumes "wf_Gamepad g" and "rect_in_texture (texture g) r"
    and "getWidth (texture g) < 2 ^ 24" and "getHeight (texture g) < 2 ^ 24"
  shows
    "(setButton g i bounds (Some r) focusRegion = Inr g_default
        \<longrightarrow> b_defaultTexCoord (buttons g_default ! i) = texCoord (texture g) r)
     \<and> (setButton g i bounds defaultRegion (Some r) = Inr g_focus
        \<longrightarrow> b_focusTexCoord (buttons g_focus ! i) = texCoord (texture g) r)
     \<and> (setJoystick g i regionInner (Some r) regionOuter texOuter radius = Inr g_inner
        \<longrightarrow> j_defaultTexCoordInner (joysticks g_inner ! i) = texCoord (texture g) r)
     \<and> (setJoystick g i regionInner texInner regionOuter (Some r) radius = Inr g_outer
        \<longrightarrow> j_defaultTexCoordOuter (joysticks g_outer ! i) = texCoord (texture g) r)
     \<and> in_unit (uv_u1 (texCoord (texture g) r))
     \<and> in_unit (uv_v1 (texCoord (texture g) r))
     \<and> in_unit (uv_u2 (texCoord (texture g) r))
     \<and> fle (Float (- (1 / 2 ^ 23))) (uv_v2 (texCoord (texture g) r))
     \<and> fle (uv_v2 (texCoord (texture g) r)) (Float 1)
     \<and> (getWidth (texture g) = 2 ^ k \<and> getHeight (texture g) = 2 ^ l
        \<and> r = \<lparr>rect_x = Float (real x), rect_y = Float (real y),
                 rect_width = Float (real w), rect_height = Float (real h)\<rparr>
        \<longrightarrow> uvs_in_unit (texCoord (texture g) r))"
proof -
  note b = texCoord_bounds [OF assms(2,3,4)]
  note sb = setButton_texCoord [OF assms(1)]
  note sj = setJoystick_texCoord [OF assms(1)]
  have exact: "uvs_in_unit (texCoord (texture g) r)"
    if "getWidth (texture g) = 2 ^ k \<and> getHeight (texture g) = 2 ^ l
        \<and> r = \<lparr>rect_x = Float (real x), rect_y = Float (real y),
                 rect_width = Float (real w), rect_height = Float (real h)\<rparr>"
  proof -
    have W: "getWidth (texture g) = 2 ^ k" and H: "getHeight (texture g) = 2 ^ l"
      and r: "r = \<lparr>rect_x = Float (real x), rect_y = Float (real y),
                 rect_width = Float (real w), rect_height = Float (real h)\<rparr>"
      using that by simp_all
    have k: "k < 24" and l: "l < 24"
      using assms(3,4) unfolding W H by (simp_all only: power_strict_increasing_iff one_less_numeral_iff semiring_norm)
    have "real (x + w) \<le> real (2 ^ k)" and "real (y + h) \<le> real (2 ^ l)"
      using assms(2) unfolding r W H rect_in_texture_def by simp_all
    then have xw: "x + w \<le> 2 ^ k" and yh: "y + h \<le> 2 ^ l"
      by (simp_all only: of_nat_le_iff)
    show ?thesis
      unfolding r by (rule texCoord_dyadic_in_unit [OF W H k l xw yh])
  qed
  from b exact show ?thesis
    by (intro conjI impI) (assumption | erule sb sj | simp)+
qed

theorem texture_coordinates_within_texture_witness:
  "wf_Gamepad example_pad
   \<and> rect_in_texture (texture example_pad)
        \<lparr>rect_x = Float (real 64), rect_y = Float (real 0),
         rect_width = Float (real 32), rect_height = Float (real 32)\<rparr>
   \<and> getWidth (texture example_pad) = 2 ^ 8 \<and> getHeight (texture example_pad) = 2 ^ 7
   \<and> setJoystick example_pad 0 None
        (Some \<lparr>rect_x = Float (real 64), rect_y = Float (real 0),
               rect_width = Float (real 32), rect_height = Float (real 32)\<rparr>)
        None None (Float 64) = Inr example_pad
   \<and> j_defaultTexCoordInner (joysticks example_pad ! 0)
       = texCoord (texture example_pad)
           \<lparr>rect_x = Float (real 64), rect_y = Float (real 0),
            rect_width = Float (real 32), rect_height = Float (real 32)\<rparr>
   \<and> uvs_in_unit (j_defaultTexCoordInner (joysticks example_pad ! 0))"
proof -
  define r where "r = \<lparr>rect_x = Float (real 64), rect_y = Float (real 0),
         rect_width = Float (real 32), rect_height = Float (real 32)\<rparr>"
  have h1: "wf_Gamepad example_pad" by (rule wf_example_pad)
  have h2: "rect_in_texture (texture example_pad) r"
    by (simp add: r_def rect_in_texture_def example_pad_def example_texture_def is_finite_def)
  have h3: "getWidth (texture example_pad) < 2 ^ 24" "getHeight (texture example_pad) < 2 ^ 24"
    and h4: "getWidth (texture example_pad) = 2 ^ 8" "getHeight (texture example_pad) = 2 ^ 7"
    by (simp_all add: example_pad_def example_texture_def)
  have h5: "setJoystick example_pad 0 None (Some r) None None (Float 64) = Inr example_pad"
    using example_texCoords(2)
    by (simp add: r_def setJoystick_def setJoystick_at_def example_pad_def Let_def)
  note t = texture_coordinates_within_texture [OF h1 h2 h3, where i = 0 and regionInner = None
      and regionOuter = None and texOuter = None and radius = "Float 64"
      and g_inner = example_pad and k = 8 and l = 7 and x = 64 and y = 0 and w = 32 and h = 32]
  have a: "j_defaultTexCoordInner (joysticks example_pad ! 0) = texCoord (texture example_pad) r"
    using t h5 by blast
  have "uvs_in_unit (texCoord (texture example_pad) r)"
    using t h4 r_def by blast
  with a h1 h2 h4 h5 show ?thesis unfolding r_def by simp
qed

text \<open>
  Claim C3, as stated, speaks of every region rectangle. On the example gamepad, whose
  texture is 256 wide, \<open>setButton\<close> with a default texture region at \<open>x = 512\<close> stores
  \<open>u1 = 2\<close>. And a rectangle within the texture can have a negative \<open>v2\<close>: on a texture
  256 wide and 100 high, \<open>setJoystick\<close> with the inner texture region of the rows from
  33 to 100 stores \<open>v2 = - 1 / 2 ^ 24\<close>, since \<open>33 / 100\<close> and \<open>67 / 100\<close> both round up.
\<close>

theorem texture_coordinates_counterexample:
  "setButton example_pad 1 None (Some outside_region) None = Inr example_outside
   \<and> uv_u1 (b_defaultTexCoord (buttons example_outside ! 1)) = Float 2
   \<and> \<not> uvs_in_unit (b_defaultTexCoord (buttons example_outside ! 1))
   \<and> rect_in_texture texture_100 region_100
   \<and> setJoystick fresh_100 0 None (Some region_100) None None (Float 10) = Inr pad_100
   \<and> uv_v2 (j_defaultTexCoordInner (joysticks pad_100 ! 0)) = Float (- (1 / 16777216))
   \<and> \<not> uvs_in_unit (j_defaultTexCoordInner (joysticks pad_100 ! 0))"
proof -
  have t: "texCoord example_texture outside_region
             = \<lparr>uv_u1 = Float 2, uv_v1 = Float 1, uv_u2 = Float (9 / 4), uv_v2 = Float (1 / 2)\<rparr>"
    by (simp add: texCoord_def example_texture_def outside_region_def Let_def float_eval
        fl_quarters fl_100_exact)
  have 1: "setButton example_pad 1 None (Some outside_region) None = Inr example_outside"
    by (simp add: setButton_def setButton_at_def example_pad_def example_outside_def t)
  have 2: "uv_u1 (b_defaultTexCoord (buttons example_outside ! 1)) = Float 2"
    and 3: "\<not> uvs_in_unit (b_defaultTexCoord (buttons example_outside ! 1))"
    by (simp_all add: example_outside_def uvs_in_unit_def in_unit_def)
  have 4: "rect_in_texture texture_100 region_100"
    by (simp add: rect_in_texture_def texture_100_def region_100_def is_finite_def)
  have 5: "setJoystick fresh_100 0 None (Some region_100) None None (Float 10) = Inr pad_100"
    by (simp add: setJoystick_def setJoystick_at_def fresh_100_def fresh_stick_def pad_100_def
        texCoord_100)
  have 6: "uv_v2 (j_defaultTexCoordInner (joysticks pad_100 ! 0)) = Float (- (1 / 16777216))"
    and 7: "\<not> uvs_in_unit (j_defaultTexCoordInner (joysticks pad_100 ! 0))"
    by (simp_all add: pad_100_def uvs_in_unit_def in_unit_def)
  from 1 2 3 4 5 6 7 show ?thesis by blast
qed

end
